theory Spec2Isabelle
  imports Main
begin

section \<open>Strings\<close>

text \<open>
  Names are compared case-insensitively throughout \<^verbatim>\<open>Scope.ts\<close>. The model's strings are
  lists of 8-bit characters; \<open>toLowerCase\<close> maps the letters A to Z to a to z and leaves every
  other character alone (JavaScript's Unicode case mapping restricted to ASCII).
\<close>

definition toLowerCaseChar :: "char \<Rightarrow> char" where
  "toLowerCaseChar c =
     (case map_of (zip ''ABCDEFGHIJKLMNOPQRSTUVWXYZ'' ''abcdefghijklmnopqrstuvwxyz'') c of
        Some l \<Rightarrow> l
      | None \<Rightarrow> c)"

definition toLowerCase :: "string \<Rightarrow> string" where
  "toLowerCase s = map toLowerCaseChar s"

definition startsWith :: "string \<Rightarrow> string \<Rightarrow> bool" where
  "startsWith s searchString = (take (length searchString) s = searchString)"

definition isWhiteSpace :: "char \<Rightarrow> bool" where
  "isWhiteSpace c = (c \<in> set [CHR '' '', CHR 0x09, CHR 0x0A, CHR 0x0B, CHR 0x0C, CHR 0x0D])"

definition trim :: "string \<Rightarrow> string" where
  "trim s = rev (dropWhile isWhiteSpace (rev (dropWhile isWhiteSpace s)))"

text \<open>\<open>name.split('.')\<close>: the pieces between the dots; a string without a dot is one piece.\<close>

fun splitDot :: "string \<Rightarrow> string list" where
  "splitDot [] = [[]]"
| "splitDot (c # cs) =
     (if c = CHR ''.'' then [] # splitDot cs
      else (case splitDot cs of
              [] \<Rightarrow> [[c]]
            | part # parts \<Rightarrow> (c # part) # parts))"

fun joinDot :: "string list \<Rightarrow> string" where
  "joinDot [] = []"
| "joinDot [part] = part"
| "joinDot (part # parts) = part @ ''.'' @ joinDot parts"

text \<open>The decimal rendering of a number inside a template literal.\<close>

definition digitChar :: "nat \<Rightarrow> char" where
  "digitChar d = ''0123456789'' ! (d mod 10)"

function numberToString :: "nat \<Rightarrow> string" where
  "numberToString n =
     (if n < 10 then [digitChar n]
      else numberToString (n div 10) @ [digitChar (n mod 10)])"
  by pat_completeness auto
termination
  by (relation "measure (\<lambda>n. n)") auto

declare numberToString.simps [simp del]

section \<open>Collaborator data read by the scope\<close>

record Position =
  line :: int
  character :: int

record Range =
  range_start :: Position
  range_end :: Position

text \<open>\<open>util.createRange(startLine, startCharacter, endLine, endCharacter)\<close>.\<close>

definition createRange :: "int \<Rightarrow> int \<Rightarrow> int \<Rightarrow> int \<Rightarrow> Range" where
  "createRange startLine startCharacter endLine endCharacter =
     \<lparr>range_start = \<lparr>line = startLine, character = startCharacter\<rparr>,
      range_end = \<lparr>line = endLine, character = endCharacter\<rparr>\<rparr>"

text \<open>
  A file object is referenced from its callables, its script imports and the diagnostics
  anchored in it (\<open>callable.file\<close>, \<open>scriptImport.sourceFile\<close>, \<open>diagnostic.file\<close>). A
  reference is the object's address, compared by \<open>===\<close>, together with the two attributes
  the scope reads through it. \<open>BscFile\<close> below extends this record, so \<open>pkgPath\<close> and
  \<open>pathAbsolute\<close> read a file and a reference alike.
\<close>

record FileRef =
  address :: nat
  pkgPath :: string
  pathAbsolute :: string

datatype ParseMode = BrightScript | BrighterScript

record CallableParam =
  param_name :: string
  isOptional :: bool

record Callable =
  name :: string
  getName :: "ParseMode \<Rightarrow> string"
  callable_file :: FileRef
  params :: "CallableParam list"
  nameRange :: Range
  hasNamespace :: bool

text \<open>
  A callable paired with the scope that surfaced it. Scopes are referenced by name, the key
  under which the program holds them; \<open>container.scope === this\<close> compares two such
  references and \<open>container.scope.name\<close> reads one.
\<close>

record CallableContainer =
  callable :: Callable
  scope :: string

text \<open>
  \<open>CallableContainerMap\<close> is a JavaScript \<open>Map\<close>: \<open>get\<close> is \<open>map_of\<close>, iteration follows
  the order of the entries.
\<close>

type_synonym CallableContainerMap = "(string \<times> CallableContainer list) list"

record FunctionCall =
  call_name :: string
  call_nameRange :: Range
  call_args :: "string list"

text \<open>
  Of a variable declaration's type only \<open>isFunctionType(varDeclaration.type)\<close> is read.
\<close>

record VariableDeclaration =
  var_name :: string
  var_isFunctionType :: bool
  var_nameRange :: Range

record FunctionScope =
  variableDeclarations :: "VariableDeclaration list"

text \<open>
  Modelled from the spec: \<open>FunctionScope.getVariableByName\<close> is not among the sources. "If a
  local variable with that name exists", names matching case-insensitively: the first
  declaration of the function scope whose lower-case name is the lower-case argument.
\<close>

definition getVariableByName :: "FunctionScope \<Rightarrow> string \<Rightarrow> VariableDeclaration option" where
  "getVariableByName functionScope n =
     find (\<lambda>v. toLowerCase (var_name v) = toLowerCase n) (variableDeclarations functionScope)"

record FileReference =
  import_pkgPath :: string
  import_text :: string
  filePathRange :: Range
  sourceFile :: FileRef

record ClassStatement =
  class_name_text :: string
  class_getName :: "ParseMode \<Rightarrow> string option"

record FunctionStatement =
  function_name_text :: string

datatype Statement =
    ClassStmt ClassStatement
  | FunctionStmt FunctionStatement
  | OtherStmt

record NamespaceStatement =
  ns_name :: string
  ns_nameRange :: Range
  ns_body :: "Statement list"

record FunctionParameter =
  fp_name_text :: string
  fp_name_range :: Range

record FunctionExpression =
  parameters :: "FunctionParameter list"

record AssignmentStatement =
  assign_name_text :: string
  assign_name_range :: Range

section \<open>Diagnostics\<close>

text \<open>
  Modelled from the spec: the diagnostic catalog \<open>DiagnosticMessages\<close> is not among the
  sources. It is "a set of pure factory functions" producing the payload of a diagnostic;
  each factory the scope calls is a constructor that keeps its arguments.
\<close>

text \<open>
  The first argument of \<open>mismatchArgumentCount\<close> is the number \<open>maxParams\<close> or the template
  literal made of \<open>minParams\<close>, a dash and \<open>maxParams\<close>.
\<close>

datatype MinMaxParamsText = ParamCount nat | ParamRange string

datatype DiagnosticInfo =
    callToUnknownFunction string string
  | mismatchArgumentCount MinMaxParamsText nat
  | duplicateFunctionImplementation string string
  | overridesAncestorFunction string string string string
  | scopeFunctionShadowedByBuiltInFunction
  | functionCannotHaveSameNameAsClass string
  | localVarFunctionShadowsParentFunction string
  | localVarShadowedByScopedFunction
  | localVarSameNameAsClass "string option"
  | parameterMayNotHaveSameNameAsNamespace string
  | variableMayNotHaveSameNameAsNamespace string
  | scriptSrcCannotBeEmpty
  | referencedFileDoesNotExist
  | scriptImportCaseMismatch string
  | otherDiagnostic string

text \<open>
  Related information: the message and the location, a file (the model keeps the path the
  URI is made from) and a range.
\<close>

record RelatedInformation =
  related_message :: string
  location_path :: string
  location_range :: Range

record BsDiagnostic =
  info :: DiagnosticInfo
  diag_range :: Range
  diag_file :: FileRef
  relatedInformation :: "RelatedInformation list"

section \<open>Files\<close>

datatype FileKind = BrsFile | XmlFile

text \<open>
  The attributes of a \<open>BscFile\<close> the scope reads. \<open>kind\<close> answers \<open>isBrsFile\<close> and
  \<open>isXmlFile\<close>; the four statement lists are \<open>file.parser.references\<close>;
  \<open>getFunctionScopeAtPosition\<close> and \<open>file_getDiagnostics\<close> are the file's methods
  \<open>getFunctionScopeAtPosition(position)\<close> and \<open>getDiagnostics()\<close>, which are not among the
  sources and are taken as given.
\<close>

record BscFile = FileRef +
  kind :: FileKind
  extension :: string
  hasTypedef :: bool
  callables :: "Callable list"
  functionCalls :: "FunctionCall list"
  functionScopes :: "FunctionScope list"
  getFunctionScopeAtPosition :: "Position \<Rightarrow> FunctionScope option"
  ownScriptImports :: "FileReference list"
  scriptTagImports :: "FileReference list"
  namespaceStatements :: "NamespaceStatement list"
  classStatements :: "ClassStatement list"
  functionExpressions :: "FunctionExpression list"
  assignmentStatements :: "AssignmentStatement list"
  file_getDiagnostics :: "BsDiagnostic list"

definition fileRef :: "BscFile \<Rightarrow> FileRef" where
  "fileRef f = FileRef.truncate f"

record Component =
  comp_file :: BscFile

section \<open>The dependency graph\<close>

text \<open>
  Modelled from the spec: \<open>DependencyGraph\<close> is not among the sources. It is "a directed
  graph whose nodes are keyed by opaque strings"; a node lists its direct dependencies, and
  \<open>getAllDependencies(key)\<close> is the "ordered list (transitive, deduped, stable order)" of
  what is reachable from the key's direct dependencies: a traversal that takes the next
  pending dependency, skips it when already seen, and otherwise records it and queues its own
  dependencies.
\<close>

type_synonym DependencyGraph = "(string \<times> string list) list"

definition dependencies :: "DependencyGraph \<Rightarrow> string \<Rightarrow> string list" where
  "dependencies g key = (case map_of g key of None \<Rightarrow> [] | Some ds \<Rightarrow> ds)"

function walk :: "DependencyGraph \<Rightarrow> string list \<Rightarrow> string list \<Rightarrow> string list" where
  "walk g [] seen = seen"
| "walk g (d # stack) seen =
     (if d \<in> set seen then walk g stack seen
      else walk g (dependencies g d @ stack) (seen @ [d]))"
  by pat_completeness auto
termination
proof (relation "measures [\<lambda>(g, stack, seen). card (fst ` set g - set seen),
                           \<lambda>(g, stack, seen). length stack]", goal_cases)
  case 1
  show ?case by simp
next
  case (2 g d stack seen)
  then show ?case by simp
next
  case (3 g d stack seen)
  show ?case
  proof (cases "d \<in> fst ` set g")
    case True
    have "fst ` set g - set (seen @ [d]) \<subset> fst ` set g - set seen"
      using True 3 by auto
    then have "card (fst ` set g - set (seen @ [d])) < card (fst ` set g - set seen)"
      by (simp add: psubset_card_mono)
    then show ?thesis by simp
  next
    case False
    then have "map_of g d = None"
      by (simp add: map_of_eq_None_iff)
    then have "dependencies g d = []"
      by (simp add: dependencies_def)
    moreover have "fst ` set g - set (seen @ [d]) = fst ` set g - set seen"
      using False by auto
    ultimately show ?thesis by simp
  qed
qed

definition getAllDependencies :: "DependencyGraph \<Rightarrow> string \<Rightarrow> string list" where
  "getAllDependencies g key = walk g (dependencies g key) []"

section \<open>The cache and the scope\<close>

text \<open>
  A namespace container. Child containers are shared objects in the source (the same object
  sits in the flat lookup and in its parent's \<open>namespaces\<close>); here the flat lookup is the
  store and a parent holds the lookup key of each child.
\<close>

record NamespaceContainer =
  nsc_file :: FileRef
  fullName :: string
  nsc_nameRange :: Range
  lastPartName :: string
  namespaces :: "(string \<times> string) list"
  nsc_classStatements :: "(string \<times> ClassStatement) list"
  nsc_functionStatements :: "(string \<times> FunctionStatement) list"
  statements :: "Statement list"

text \<open>
  The only exception the scope's own code can raise on well-typed input is the
  \<open>TypeError\<close> of reading or writing a property of \<open>undefined\<close>. A method that can throw
  returns an \<open>Outcome\<close>: it returned, or it threw, and either way it left a state behind.
\<close>

datatype JSError = TypeError

datatype 's Outcome = Returned 's | Thrown JSError 's

fun state :: "'s Outcome \<Rightarrow> 's" where
  "state (Returned s) = s"
| "state (Thrown e s) = s"

fun thrown :: "'s Outcome \<Rightarrow> JSError option" where
  "thrown (Returned s) = None"
| "thrown (Thrown e s) = Some e"

text \<open>
  The namespace lookup is a plain object, \<open>{} as Record<string, NamespaceContainer>\<close>, so a
  property read goes on to \<open>Object.prototype\<close> when the object has no own property of that
  name. All keys are lower-case; the property names of \<open>Object.prototype\<close> that are their
  own lower-case form are \<open>constructor\<close> (the function \<open>Object\<close>) and \<open>__proto__\<close> (an
  accessor that yields \<open>Object.prototype\<close>). A value read from the lookup is therefore a
  container or one of these two objects, neither of which has any of a container's
  properties. The own properties are kept in insertion order, the order of \<open>for (key in
  namespaceLookup)\<close> (names are identifiers, so no key is an array index).
\<close>

datatype NamespaceLookupValue =
    Container NamespaceContainer
  | ObjectConstructor
  | ObjectPrototype

type_synonym NamespaceLookup = "(string \<times> NamespaceLookupValue) list"

text \<open>
  Modelled from the spec: \<open>Cache\<close> is not among the sources. "Per-scope memoization store:
  named slots computed on demand, cleared atomically on invalidation"; \<open>getOrAdd(slot,
  factory)\<close> "returns the stored value or stores and returns \<open>factory()\<close>". The scope uses
  three slots, \<open>getAllFiles\<close>, \<open>classMap\<close> and \<open>namespaceLookup\<close>.
\<close>

record Cache =
  slot_getAllFiles :: "BscFile list option"
  slot_classMap :: "(string \<times> ClassStatement) list option"
  slot_namespaceLookup :: "NamespaceLookup option"

definition cache_clear :: "Cache \<Rightarrow> Cache" where
  "cache_clear c = \<lparr>slot_getAllFiles = None, slot_classMap = None, slot_namespaceLookup = None\<rparr>"

text \<open>
  The state of a \<open>Scope\<close> object. Its \<open>name\<close> is the reference under which the program
  holds it and is passed as \<open>this\<close> where a method reads it. The subscription handles
  (\<open>programHandles\<close>, \<open>dispose\<close>) and logging are left out.
\<close>

record Scope =
  dependencyGraphKey :: string
  isValidated :: bool
  diagnostics :: "BsDiagnostic list"
  cache :: Cache

text \<open>
  The \<open>Program\<close> the scope belongs to, as far as the scope uses it: the dependency graph, the
  file provider (\<open>getFileByPkgPath\<close>, \<open>getComponent\<close>), the name of the global scope and the
  plugin bus. \<open>plugins_emit event this scope files callableContainerMap\<close> stands for the
  diagnostics the handlers of \<open>event\<close> hand to \<open>scope.addDiagnostics\<close>. The remaining
  fields are the modules \<^verbatim>\<open>Scope.ts\<close> imports that are not among the sources, taken as
  given: \<open>util.diagnosticIsSuppressed\<close>, \<open>String.prototype.localeCompare\<close>,
  \<open>globalCallableMap.has\<close> and the diagnostics of \<open>BsClassValidator.validate(scope)\<close>.
\<close>

record Program =
  dependencyGraph :: DependencyGraph
  getFileByPkgPath :: "string \<Rightarrow> BscFile option"
  getComponent :: "string \<Rightarrow> Component option"
  globalScope :: string
  plugins_emit :: "string \<Rightarrow> string \<Rightarrow> Scope \<Rightarrow> BscFile list \<Rightarrow> CallableContainerMap \<Rightarrow> BsDiagnostic list"
  diagnosticIsSuppressed :: "BsDiagnostic \<Rightarrow> bool"
  localeCompare :: "string \<Rightarrow> string \<Rightarrow> int"
  globalCallableMap_has :: "string \<Rightarrow> bool"
  classValidator :: "string \<Rightarrow> Scope \<Rightarrow> BsDiagnostic list"

type_synonym Scopes = "string \<Rightarrow> Scope"

subsection \<open>Files of a scope\<close>

text \<open>
  \<open>dependency.replace(/$component:/, '')\<close>: in the pattern \<open>$\<close> is the end-of-input
  assertion, so it would have to be followed by \<open>component:\<close> after the end of the string;
  the pattern matches nothing and \<open>replace\<close> returns its receiver.
\<close>

definition replaceComponentPrefix :: "string \<Rightarrow> string" where
  "replaceComponentPrefix dependency = dependency"

fun getAllFiles_loop :: "Program \<Rightarrow> string list \<Rightarrow> BscFile list \<Rightarrow> BscFile list" where
  "getAllFiles_loop p [] result = result"
| "getAllFiles_loop p (dependency # rest) result =
     (if startsWith dependency ''component:'' then
        (case getComponent p (replaceComponentPrefix dependency) of
           Some component \<Rightarrow> getAllFiles_loop p rest (result @ [comp_file component])
         | None \<Rightarrow> getAllFiles_loop p rest result)
      else
        (case getFileByPkgPath p dependency of
           Some f \<Rightarrow> getAllFiles_loop p rest (result @ [f])
         | None \<Rightarrow> getAllFiles_loop p rest result))"

text \<open>The factory of the \<open>getAllFiles\<close> slot.\<close>

definition getAllFiles_factory :: "Program \<Rightarrow> Scope \<Rightarrow> BscFile list" where
  "getAllFiles_factory p sc =
     getAllFiles_loop p (getAllDependencies (dependencyGraph p) (dependencyGraphKey sc)) []"

definition getAllFiles :: "Program \<Rightarrow> Scope \<Rightarrow> BscFile list \<times> Scope" where
  "getAllFiles p sc =
     (case slot_getAllFiles (cache sc) of
        Some files \<Rightarrow> (files, sc)
      | None \<Rightarrow>
          (let result = getAllFiles_factory p sc
           in (result, sc\<lparr>cache := (cache sc)\<lparr>slot_getAllFiles := Some result\<rparr>\<rparr>)))"

definition getOwnFiles :: "Program \<Rightarrow> Scope \<Rightarrow> BscFile list \<times> Scope" where
  "getOwnFiles p sc = getAllFiles p sc"

text \<open>
  \<open>enumerateAllFiles(callback)\<close> and \<open>enumerateOwnFiles(callback)\<close> call the callback on
  every file without a typedef, in order, and drop what it returns. The model returns the
  files the callback is called on; each caller runs its callback over them.
\<close>

definition enumerateAllFiles :: "Program \<Rightarrow> Scope \<Rightarrow> BscFile list \<times> Scope" where
  "enumerateAllFiles p sc =
     (let (files, sc') = getAllFiles p sc
      in (filter (\<lambda>f. \<not> hasTypedef f) files, sc'))"

definition enumerateOwnFiles :: "Program \<Rightarrow> Scope \<Rightarrow> BscFile list \<times> Scope" where
  "enumerateOwnFiles p sc =
     (let (files, sc') = getOwnFiles p sc
      in (filter (\<lambda>f. \<not> hasTypedef f) files, sc'))"

text \<open>
  \<open>isKnownNamespace\<close>: the arrow function handed to \<open>enumerateAllFiles\<close> returns \<open>true\<close>
  from inside its loop or falls off its end (\<open>undefined\<close>, here \<open>None\<close>);
  \<open>enumerateAllFiles\<close> drops that value, and the method itself ends in \<open>return false\<close>.
\<close>

fun isKnownNamespace_callback :: "string \<Rightarrow> NamespaceStatement list \<Rightarrow> bool option" where
  "isKnownNamespace_callback namespaceNameLower [] = None"
| "isKnownNamespace_callback namespaceNameLower (namespace # rest) =
     (let loopNamespaceNameLower = toLowerCase (ns_name namespace)
      in if loopNamespaceNameLower = namespaceNameLower
            \<or> startsWith loopNamespaceNameLower (namespaceNameLower @ ''.'')
         then Some True
         else isKnownNamespace_callback namespaceNameLower rest)"

definition isKnownNamespace :: "Program \<Rightarrow> Scope \<Rightarrow> string \<Rightarrow> bool \<times> Scope" where
  "isKnownNamespace p sc namespaceName =
     (let namespaceNameLower = toLowerCase namespaceName;
          (files, sc') = enumerateAllFiles p sc;
          dropped = map (\<lambda>f. isKnownNamespace_callback namespaceNameLower (namespaceStatements f)) files
      in (False, sc'))"

subsection \<open>Parent scope, callables, diagnostics, invalidation\<close>

definition getParentScope :: "Program \<Rightarrow> string \<Rightarrow> string option" where
  "getParentScope p this = (if globalScope p \<noteq> this then Some (globalScope p) else None)"

fun getOwnCallables_loop :: "string \<Rightarrow> BscFile list \<Rightarrow> CallableContainer list \<Rightarrow> CallableContainer list" where
  "getOwnCallables_loop this [] result = result"
| "getOwnCallables_loop this (f # files) result =
     getOwnCallables_loop this files
       (result @ map (\<lambda>c. \<lparr>callable = c, scope = this\<rparr>) (callables f))"

definition getOwnCallables :: "Program \<Rightarrow> string \<Rightarrow> Scope \<Rightarrow> CallableContainer list \<times> Scope" where
  "getOwnCallables p this sc =
     (let (files, sc') = enumerateOwnFiles p sc
      in (getOwnCallables_loop this files [], sc'))"

text \<open>
  \<open>getAllCallables\<close> reads the scope and its parent, so it works on the program's scopes:
  the own callables first, then the parent's.
\<close>

function getAllCallables :: "Program \<Rightarrow> Scopes \<Rightarrow> string \<Rightarrow> CallableContainer list \<times> Scopes" where
  "getAllCallables p h this =
     (case getParentScope p this of
        Some parentScope \<Rightarrow>
          (let (own, sc') = getOwnCallables p this (h this);
               (inherited, h') = getAllCallables p (h(this := sc')) parentScope
           in (own @ inherited, h'))
      | None \<Rightarrow>
          (let (own, sc') = getOwnCallables p this (h this)
           in (own, h(this := sc'))))"
  by pat_completeness auto
termination
  by (relation "measure (\<lambda>(p, h, this). if this = globalScope p then 0 else 1)")
     (auto simp: getParentScope_def split: if_splits)

declare getAllCallables.simps [simp del]

definition getDiagnostics :: "Program \<Rightarrow> Scope \<Rightarrow> BsDiagnostic list \<times> Scope" where
  "getDiagnostics p sc =
     (let (files, sc') = enumerateOwnFiles p sc;
          allDiagnostics = diagnostics sc @ concat (map file_getDiagnostics files)
      in (filter (\<lambda>x. \<not> diagnosticIsSuppressed p x) allDiagnostics, sc'))"

definition addDiagnostics :: "BsDiagnostic list \<Rightarrow> Scope \<Rightarrow> Scope" where
  "addDiagnostics ds sc = sc\<lparr>diagnostics := diagnostics sc @ ds\<rparr>"

definition invalidate :: "Scope \<Rightarrow> Scope" where
  "invalidate sc = sc\<lparr>isValidated := False, cache := cache_clear (cache sc)\<rparr>"

subsection \<open>Class map and namespace lookup\<close>

text \<open>\<open>map.set(key, value)\<close> and \<open>object[key] = value\<close>: a present key keeps its place.\<close>

fun dictSet :: "'k \<Rightarrow> 'v \<Rightarrow> ('k \<times> 'v) list \<Rightarrow> ('k \<times> 'v) list" where
  "dictSet k v [] = [(k, v)]"
| "dictSet k v ((k', v') # m) = (if k' = k then (k, v) # m else (k', v') # dictSet k v m)"

fun getClassMap_loop :: "ClassStatement list \<Rightarrow> (string \<times> ClassStatement) list \<Rightarrow> (string \<times> ClassStatement) list" where
  "getClassMap_loop [] m = m"
| "getClassMap_loop (cls # rest) m =
     (case class_getName cls BrighterScript of
        None \<Rightarrow> getClassMap_loop rest m
      | Some n \<Rightarrow>
          (let lowerClassName = toLowerCase n
           in if lowerClassName \<noteq> [] then getClassMap_loop rest (dictSet lowerClassName cls m)
              else getClassMap_loop rest m))"

definition getClassMap :: "Program \<Rightarrow> Scope \<Rightarrow> (string \<times> ClassStatement) list \<times> Scope" where
  "getClassMap p sc =
     (case slot_classMap (cache sc) of
        Some m \<Rightarrow> (m, sc)
      | None \<Rightarrow>
          (let (files, sc') = enumerateAllFiles p sc;
               m = fold (\<lambda>f m. getClassMap_loop (classStatements f) m) files []
           in (m, sc'\<lparr>cache := (cache sc')\<lparr>slot_classMap := Some m\<rparr>\<rparr>)))"

text \<open>
  Reading and writing a property of a plain object. A write to \<open>__proto__\<close> goes to the
  accessor and makes no own property; any other write makes or replaces an own property.
\<close>

definition objectGet :: "(string \<times> 'v) list \<Rightarrow> 'v option \<Rightarrow> 'v option \<Rightarrow> string \<Rightarrow> 'v option" where
  "objectGet obj objectConstructor objectPrototype k =
     (if k = ''__proto__'' then objectPrototype
      else (case map_of obj k of
              Some v \<Rightarrow> Some v
            | None \<Rightarrow> (if k = ''constructor'' then objectConstructor else None)))"

definition objectSet :: "string \<Rightarrow> 'v \<Rightarrow> (string \<times> 'v) list \<Rightarrow> (string \<times> 'v) list" where
  "objectSet k v obj = (if k = ''__proto__'' then obj else dictSet k v obj)"

definition lookupGet :: "NamespaceLookup \<Rightarrow> string \<Rightarrow> NamespaceLookupValue option" where
  "lookupGet namespaceLookup k =
     objectGet namespaceLookup (Some ObjectConstructor) (Some ObjectPrototype) k"

text \<open>
  \<open>buildNamespaceLookup\<close>. Every prefix of a namespace name gets a container, made by the
  first statement that needs it, unless the lookup already yields a value for the prefix
  (\<open>namespaceLookup[lowerLoopName] ?? {...}\<close>); the statement's body goes to the value found
  under the full name; after each file every own property with a dotted full name is entered
  in its parent. Where the source reads a property of a value that is \<open>undefined\<close> or has no
  such property and then uses the result (\<open>ns.statements.push\<close>, \<open>ns.fullName.split\<close>,
  \<open>parent.namespaces[...] = ns\<close>), it throws.
\<close>

fun ensureParts :: "FileRef \<Rightarrow> NamespaceStatement \<Rightarrow> string option \<Rightarrow> string list
    \<Rightarrow> NamespaceLookup \<Rightarrow> NamespaceLookup" where
  "ensureParts f namespace loopName [] namespaceLookup = namespaceLookup"
| "ensureParts f namespace loopName (part # nameParts) namespaceLookup =
     (let loopName' = (case loopName of None \<Rightarrow> part | Some l \<Rightarrow> l @ ''.'' @ part);
          lowerLoopName = toLowerCase loopName';
          namespaceLookup' =
            (case lookupGet namespaceLookup lowerLoopName of
               Some existing \<Rightarrow> objectSet lowerLoopName existing namespaceLookup
             | None \<Rightarrow>
                 objectSet lowerLoopName
                   (Container
                     \<lparr>nsc_file = f, fullName = loopName', nsc_nameRange = ns_nameRange namespace,
                      lastPartName = part, namespaces = [], nsc_classStatements = [],
                      nsc_functionStatements = [], statements = []\<rparr>)
                   namespaceLookup)
      in ensureParts f namespace (Some loopName') nameParts namespaceLookup')"

fun addStatement :: "Statement \<Rightarrow> NamespaceContainer \<Rightarrow> NamespaceContainer" where
  "addStatement (ClassStmt statement) ns =
     ns\<lparr>nsc_classStatements :=
          objectSet (toLowerCase (class_name_text statement)) statement (nsc_classStatements ns)\<rparr>"
| "addStatement (FunctionStmt statement) ns =
     ns\<lparr>nsc_functionStatements :=
          objectSet (toLowerCase (function_name_text statement)) statement
            (nsc_functionStatements ns)\<rparr>"
| "addStatement OtherStmt ns = ns"

definition addBody :: "NamespaceStatement \<Rightarrow> NamespaceLookup \<Rightarrow> JSError + NamespaceLookup" where
  "addBody namespace namespaceLookup =
     (case lookupGet namespaceLookup (toLowerCase (ns_name namespace)) of
        Some (Container ns) \<Rightarrow>
          Inr (objectSet (toLowerCase (ns_name namespace))
                 (Container (fold addStatement (ns_body namespace)
                    (ns\<lparr>statements := statements ns @ ns_body namespace\<rparr>)))
                 namespaceLookup)
      | Some ObjectConstructor \<Rightarrow> Inl TypeError
      | Some ObjectPrototype \<Rightarrow> Inl TypeError
      | None \<Rightarrow> Inl TypeError)"

fun declareNamespaces :: "FileRef \<Rightarrow> NamespaceStatement list \<Rightarrow> NamespaceLookup
    \<Rightarrow> JSError + NamespaceLookup" where
  "declareNamespaces f [] namespaceLookup = Inr namespaceLookup"
| "declareNamespaces f (namespace # rest) namespaceLookup =
     (case addBody namespace
             (ensureParts f namespace None (splitDot (ns_name namespace)) namespaceLookup) of
        Inl e \<Rightarrow> Inl e
      | Inr namespaceLookup' \<Rightarrow> declareNamespaces f rest namespaceLookup')"

definition wireChild :: "string \<Rightarrow> NamespaceLookup \<Rightarrow> JSError + NamespaceLookup" where
  "wireChild key namespaceLookup =
     (case lookupGet namespaceLookup key of
        Some (Container ns) \<Rightarrow>
          (let parts = splitDot (fullName ns)
           in if length parts > 1 then
                (let parentName = joinDot (butlast parts)
                 in case lookupGet namespaceLookup (toLowerCase parentName) of
                      Some (Container parent) \<Rightarrow>
                        Inr (objectSet (toLowerCase parentName)
                               (Container (parent\<lparr>namespaces :=
                                  objectSet (toLowerCase (lastPartName ns)) key
                                    (namespaces parent)\<rparr>))
                               namespaceLookup)
                    | Some ObjectConstructor \<Rightarrow> Inl TypeError
                    | Some ObjectPrototype \<Rightarrow> Inl TypeError
                    | None \<Rightarrow> Inl TypeError)
              else Inr namespaceLookup)
      | Some ObjectConstructor \<Rightarrow> Inl TypeError
      | Some ObjectPrototype \<Rightarrow> Inl TypeError
      | None \<Rightarrow> Inl TypeError)"

fun wireChildren :: "string list \<Rightarrow> NamespaceLookup \<Rightarrow> JSError + NamespaceLookup" where
  "wireChildren [] namespaceLookup = Inr namespaceLookup"
| "wireChildren (key # keys) namespaceLookup =
     (case wireChild key namespaceLookup of
        Inl e \<Rightarrow> Inl e
      | Inr namespaceLookup' \<Rightarrow> wireChildren keys namespaceLookup')"

definition buildNamespaceLookup_file :: "BscFile \<Rightarrow> NamespaceLookup \<Rightarrow> JSError + NamespaceLookup" where
  "buildNamespaceLookup_file f namespaceLookup =
     (case declareNamespaces (fileRef f) (namespaceStatements f) namespaceLookup of
        Inl e \<Rightarrow> Inl e
      | Inr declared \<Rightarrow> wireChildren (map fst declared) declared)"

fun buildNamespaceLookup_files :: "BscFile list \<Rightarrow> NamespaceLookup \<Rightarrow> JSError + NamespaceLookup" where
  "buildNamespaceLookup_files [] namespaceLookup = Inr namespaceLookup"
| "buildNamespaceLookup_files (f # files) namespaceLookup =
     (case buildNamespaceLookup_file f namespaceLookup of
        Inl e \<Rightarrow> Inl e
      | Inr namespaceLookup' \<Rightarrow> buildNamespaceLookup_files files namespaceLookup')"

definition buildNamespaceLookup :: "Program \<Rightarrow> Scope \<Rightarrow> (JSError + NamespaceLookup) \<times> Scope" where
  "buildNamespaceLookup p sc =
     (let (files, sc') = enumerateAllFiles p sc
      in (buildNamespaceLookup_files files [], sc'))"

text \<open>
  The getter \<open>namespaceLookup\<close>: when the factory throws, nothing is stored in the slot.
\<close>

definition namespaceLookup :: "Program \<Rightarrow> Scope \<Rightarrow> (JSError + NamespaceLookup) \<times> Scope" where
  "namespaceLookup p sc =
     (case slot_namespaceLookup (cache sc) of
        Some lookup \<Rightarrow> (Inr lookup, sc)
      | None \<Rightarrow>
          (case buildNamespaceLookup p sc of
             (Inl e, sc') \<Rightarrow> (Inl e, sc')
           | (Inr lookup, sc') \<Rightarrow>
               (Inr lookup, sc'\<lparr>cache := (cache sc')\<lparr>slot_namespaceLookup := Some lookup\<rparr>\<rparr>)))"

section \<open>The validation pipeline\<close>

subsection \<open>Sorting and indexing the callables\<close>

text \<open>
  The comparator of \<open>validate\<close>: by the declaring file's absolute path, then by name.
  \<open>Array.prototype.sort\<close> is stable; it is modelled as an insertion sort that puts each
  element behind the elements that do not compare greater.
\<close>

definition compareCallables :: "Program \<Rightarrow> CallableContainer \<Rightarrow> CallableContainer \<Rightarrow> int" where
  "compareCallables p a b =
     (let byPath = localeCompare p (pathAbsolute (callable_file (callable a)))
                                   (pathAbsolute (callable_file (callable b)))
      in if byPath \<noteq> 0 then byPath
         else localeCompare p (name (callable a)) (name (callable b)))"

fun insertCallable :: "Program \<Rightarrow> CallableContainer \<Rightarrow> CallableContainer list \<Rightarrow> CallableContainer list" where
  "insertCallable p x [] = [x]"
| "insertCallable p x (y # ys) =
     (if compareCallables p y x > 0 then x # y # ys else y # insertCallable p x ys)"

definition sortCallables :: "Program \<Rightarrow> CallableContainer list \<Rightarrow> CallableContainer list" where
  "sortCallables p callables' = foldl (\<lambda>sorted x. insertCallable p x sorted) [] callables'"

text \<open>
  Modelled from the spec: \<open>util.getCallableContainersByLowerName\<close> is not among the
  sources. "lowercase-name \<rightarrow> ordered list of containers (preserving sort order)": each
  container is appended to the list of its lower-case name, a new name is a new last entry.
\<close>

fun addCallableContainer :: "string \<Rightarrow> CallableContainer \<Rightarrow> CallableContainerMap \<Rightarrow> CallableContainerMap" where
  "addCallableContainer lowerName c [] = [(lowerName, [c])]"
| "addCallableContainer lowerName c ((k, cs) # m) =
     (if k = lowerName then (k, cs @ [c]) # m else (k, cs) # addCallableContainer lowerName c m)"

definition getCallableContainersByLowerName :: "CallableContainer list \<Rightarrow> CallableContainerMap" where
  "getCallableContainersByLowerName callables' =
     foldl (\<lambda>m c. addCallableContainer (toLowerCase (getName (callable c) BrighterScript)) c m)
       [] callables'"

subsection \<open>Duplicate and override detection\<close>

text \<open>
  The first loop of \<open>diagnosticFindDuplicateFunctionDeclarations\<close> sorts the containers of
  one name into \<open>globalCallables\<close>, \<open>nonGlobalCallables\<close>, \<open>ownCallables\<close> and
  \<open>ancestorNonGlobalCallables\<close>.
\<close>

fun classifyContainers :: "Program \<Rightarrow> string \<Rightarrow> CallableContainer list
    \<Rightarrow> CallableContainer list \<times> CallableContainer list \<times> CallableContainer list \<times> CallableContainer list
    \<Rightarrow> CallableContainer list \<times> CallableContainer list \<times> CallableContainer list \<times> CallableContainer list" where
  "classifyContainers p this [] acc = acc"
| "classifyContainers p this (container # rest)
       (globalCallables, nonGlobalCallables, ownCallables, ancestorNonGlobalCallables) =
     (if scope container = globalScope p then
        classifyContainers p this rest
          (globalCallables @ [container], nonGlobalCallables, ownCallables, ancestorNonGlobalCallables)
      else if scope container = this then
        classifyContainers p this rest
          (globalCallables, nonGlobalCallables @ [container], ownCallables @ [container],
           ancestorNonGlobalCallables)
      else
        classifyContainers p this rest
          (globalCallables, nonGlobalCallables @ [container], ownCallables,
           ancestorNonGlobalCallables @ [container]))"

text \<open>
  The loop over \<open>ownCallables\<close> that reports overrides. It runs only when
  \<open>ancestorNonGlobalCallables\<close> is not empty, and \<open>shadowedCallable\<close> is the last element of
  that list in every round. Two callables live in the same file when their file references
  are the same object.
\<close>

definition overridesAncestorDiagnostic :: "CallableContainer \<Rightarrow> CallableContainer \<Rightarrow> BsDiagnostic" where
  "overridesAncestorDiagnostic container shadowedCallable =
     \<lparr>info = overridesAncestorFunction
               (name (callable container))
               (scope container)
               (pkgPath (callable_file (callable shadowedCallable)))
               (scope shadowedCallable),
      diag_range = nameRange (callable container),
      diag_file = callable_file (callable container),
      relatedInformation = []\<rparr>"

fun overrides_loop :: "string \<Rightarrow> CallableContainer \<Rightarrow> CallableContainer list
    \<Rightarrow> BsDiagnostic list \<Rightarrow> BsDiagnostic list" where
  "overrides_loop lowerName shadowedCallable [] ds = ds"
| "overrides_loop lowerName shadowedCallable (container # rest) ds =
     (if lowerName \<noteq> ''init'' then
        (if address (callable_file (callable shadowedCallable))
              = address (callable_file (callable container))
         then overrides_loop lowerName shadowedCallable rest ds
         else overrides_loop lowerName shadowedCallable rest
                (ds @ [overridesAncestorDiagnostic container shadowedCallable]))
      else overrides_loop lowerName shadowedCallable rest ds)"

definition duplicateFunctionDiagnostic :: "CallableContainer \<Rightarrow> BsDiagnostic" where
  "duplicateFunctionDiagnostic callableContainer =
     (let callable' = callable callableContainer
      in \<lparr>info = duplicateFunctionImplementation (name callable') (scope callableContainer),
          diag_range = createRange
            (line (range_start (nameRange callable')))
            (character (range_start (nameRange callable')))
            (line (range_start (nameRange callable')))
            (character (range_end (nameRange callable'))),
          diag_file = callable_file callable',
          relatedInformation = []\<rparr>)"

fun duplicates_loop :: "CallableContainer list \<Rightarrow> BsDiagnostic list \<Rightarrow> BsDiagnostic list" where
  "duplicates_loop [] ds = ds"
| "duplicates_loop (callableContainer # rest) ds =
     duplicates_loop rest (ds @ [duplicateFunctionDiagnostic callableContainer])"

text \<open>One round of the outer loop: the containers of one lower-case name.\<close>

definition findDuplicates_entry :: "Program \<Rightarrow> string \<Rightarrow> string \<times> CallableContainer list
    \<Rightarrow> BsDiagnostic list \<Rightarrow> BsDiagnostic list" where
  "findDuplicates_entry p this entry ds =
     (let lowerName = fst entry;
          (globalCallables, nonGlobalCallables, ownCallables, ancestorNonGlobalCallables) =
             classifyContainers p this (snd entry) ([], [], [], []);
          ds1 = (if length ownCallables > 0 \<and> length ancestorNonGlobalCallables > 0
                 then overrides_loop lowerName (last ancestorNonGlobalCallables) ownCallables ds
                 else ds)
      in if length ownCallables > 1 then duplicates_loop ownCallables ds1 else ds1)"

fun findDuplicates_loop :: "Program \<Rightarrow> string \<Rightarrow> CallableContainerMap
    \<Rightarrow> BsDiagnostic list \<Rightarrow> BsDiagnostic list" where
  "findDuplicates_loop p this [] ds = ds"
| "findDuplicates_loop p this (entry # rest) ds =
     findDuplicates_loop p this rest (findDuplicates_entry p this entry ds)"

definition diagnosticFindDuplicateFunctionDeclarations :: "Program \<Rightarrow> string \<Rightarrow> CallableContainerMap
    \<Rightarrow> Scope \<Rightarrow> Scope" where
  "diagnosticFindDuplicateFunctionDeclarations p this callableContainersByLowerName sc =
     sc\<lparr>diagnostics := findDuplicates_loop p this callableContainersByLowerName (diagnostics sc)\<rparr>"

subsection \<open>Script imports\<close>

definition getOwnScriptImports :: "Program \<Rightarrow> Scope \<Rightarrow> FileReference list \<times> Scope" where
  "getOwnScriptImports p sc =
     (let (files, sc') = enumerateOwnFiles p sc
      in (concat (map (\<lambda>f. case kind f of
                              BrsFile \<Rightarrow> ownScriptImports f
                            | XmlFile \<Rightarrow> scriptTagImports f) files), sc'))"

definition getFileByRelativePath :: "Program \<Rightarrow> Scope \<Rightarrow> string \<Rightarrow> BscFile option \<times> Scope" where
  "getFileByRelativePath p sc relativePath =
     (let (files, sc') = getAllFiles p sc
      in (find (\<lambda>f. toLowerCase (pkgPath f) = toLowerCase relativePath) files, sc'))"

fun validateScriptImportPaths_loop :: "Program \<Rightarrow> FileReference list \<Rightarrow> Scope \<Rightarrow> Scope" where
  "validateScriptImportPaths_loop p [] sc = sc"
| "validateScriptImportPaths_loop p (scriptImport # rest) sc =
     (let (referencedFile, sc1) = getFileByRelativePath p sc (import_pkgPath scriptImport)
      in case referencedFile of
           None \<Rightarrow>
             (let dInfo = (if length (trim (import_text scriptImport)) = 0
                           then scriptSrcCannotBeEmpty
                           else referencedFileDoesNotExist)
              in validateScriptImportPaths_loop p rest
                   (sc1\<lparr>diagnostics := diagnostics sc1 @
                          [\<lparr>info = dInfo, diag_range = filePathRange scriptImport,
                            diag_file = sourceFile scriptImport, relatedInformation = []\<rparr>]\<rparr>))
         | Some referenced \<Rightarrow>
             (if import_pkgPath scriptImport \<noteq> pkgPath referenced then
                validateScriptImportPaths_loop p rest
                  (sc1\<lparr>diagnostics := diagnostics sc1 @
                         [\<lparr>info = scriptImportCaseMismatch (pkgPath referenced),
                           diag_range = filePathRange scriptImport,
                           diag_file = sourceFile scriptImport, relatedInformation = []\<rparr>]\<rparr>)
              else validateScriptImportPaths_loop p rest sc1))"

definition diagnosticValidateScriptImportPaths :: "Program \<Rightarrow> Scope \<Rightarrow> Scope" where
  "diagnosticValidateScriptImportPaths p sc =
     (let (scriptImports, sc') = getOwnScriptImports p sc
      in validateScriptImportPaths_loop p scriptImports sc')"

definition validateClasses :: "Program \<Rightarrow> string \<Rightarrow> Scope \<Rightarrow> Scope" where
  "validateClasses p this sc = sc\<lparr>diagnostics := diagnostics sc @ classValidator p this sc\<rparr>"

subsection \<open>Checks per file\<close>

text \<open>
  \<open>callablesByLowerName.get(lowerName)\<close> and then the first element, if there is a list and
  it has one.
\<close>

definition firstCallableContainer :: "CallableContainerMap \<Rightarrow> string \<Rightarrow> CallableContainer option" where
  "firstCallableContainer callablesByLowerName lowerName =
     (case map_of callablesByLowerName lowerName of
        None \<Rightarrow> None
      | Some [] \<Rightarrow> None
      | Some (c # cs) \<Rightarrow> Some c)"

fun callsToUnknownFunctions_loop :: "string \<Rightarrow> BscFile \<Rightarrow> CallableContainerMap
    \<Rightarrow> FunctionCall list \<Rightarrow> BsDiagnostic list \<Rightarrow> BsDiagnostic list" where
  "callsToUnknownFunctions_loop this f callablesByLowerName [] ds = ds"
| "callsToUnknownFunctions_loop this f callablesByLowerName (expCall # rest) ds =
     (let lowerName = toLowerCase (call_name expCall)
      in if extension f = ''.bs'' \<and> lowerName = ''super'' then
           callsToUnknownFunctions_loop this f callablesByLowerName rest ds
         else
           (let scope' = getFunctionScopeAtPosition f (range_start (call_nameRange expCall));
                variable = (case scope' of
                              None \<Rightarrow> None
                            | Some functionScope \<Rightarrow> getVariableByName functionScope lowerName)
            in if variable = None then
                 (let knownCallable = firstCallableContainer callablesByLowerName lowerName
                  in if knownCallable = None then
                       callsToUnknownFunctions_loop this f callablesByLowerName rest
                         (ds @ [\<lparr>info = callToUnknownFunction (call_name expCall) this,
                                  diag_range = call_nameRange expCall,
                                  diag_file = fileRef f,
                                  relatedInformation = []\<rparr>])
                     else callsToUnknownFunctions_loop this f callablesByLowerName rest ds)
               else callsToUnknownFunctions_loop this f callablesByLowerName rest ds))"

definition diagnosticDetectCallsToUnknownFunctions :: "string \<Rightarrow> BscFile \<Rightarrow> CallableContainerMap
    \<Rightarrow> Scope \<Rightarrow> Scope" where
  "diagnosticDetectCallsToUnknownFunctions this f callablesByLowerName sc =
     sc\<lparr>diagnostics :=
          callsToUnknownFunctions_loop this f callablesByLowerName (functionCalls f) (diagnostics sc)\<rparr>"

text \<open>The loop over the parameters of the known callable: \<open>(minParams, maxParams)\<close>.\<close>

fun countParams :: "CallableParam list \<Rightarrow> nat \<times> nat \<Rightarrow> nat \<times> nat" where
  "countParams [] acc = acc"
| "countParams (param # rest) (minParams, maxParams) =
     countParams rest
       (if isOptional param = False then minParams + 1 else minParams, maxParams + 1)"

fun wrongParamCount_loop :: "BscFile \<Rightarrow> CallableContainerMap \<Rightarrow> FunctionCall list
    \<Rightarrow> BsDiagnostic list \<Rightarrow> BsDiagnostic list" where
  "wrongParamCount_loop f callableContainersByLowerName [] ds = ds"
| "wrongParamCount_loop f callableContainersByLowerName (expCall # rest) ds =
     (case firstCallableContainer callableContainersByLowerName (toLowerCase (call_name expCall)) of
        None \<Rightarrow> wrongParamCount_loop f callableContainersByLowerName rest ds
      | Some knownCallableContainer \<Rightarrow>
          (let (minParams, maxParams) = countParams (params (callable knownCallableContainer)) (0, 0);
               expCallArgCount = length (call_args expCall)
           in if length (call_args expCall) > maxParams \<or> length (call_args expCall) < minParams then
                (let minMaxParamsText =
                       (if minParams = maxParams then ParamCount maxParams
                        else ParamRange (numberToString minParams @ ''-'' @ numberToString maxParams))
                 in wrongParamCount_loop f callableContainersByLowerName rest
                      (ds @ [\<lparr>info = mismatchArgumentCount minMaxParamsText expCallArgCount,
                               diag_range = call_nameRange expCall,
                               diag_file = fileRef f,
                               relatedInformation = []\<rparr>]))
              else wrongParamCount_loop f callableContainersByLowerName rest ds))"

definition diagnosticDetectFunctionCallsWithWrongParamCount :: "BscFile \<Rightarrow> CallableContainerMap
    \<Rightarrow> Scope \<Rightarrow> Scope" where
  "diagnosticDetectFunctionCallsWithWrongParamCount f callableContainersByLowerName sc =
     sc\<lparr>diagnostics :=
          wrongParamCount_loop f callableContainersByLowerName (functionCalls f) (diagnostics sc)\<rparr>"

fun shadowedLocalVars_vars :: "Program \<Rightarrow> BscFile \<Rightarrow> CallableContainerMap
    \<Rightarrow> (string \<times> ClassStatement) list \<Rightarrow> VariableDeclaration list
    \<Rightarrow> BsDiagnostic list \<Rightarrow> BsDiagnostic list" where
  "shadowedLocalVars_vars p f callableContainerMap classMap [] ds = ds"
| "shadowedLocalVars_vars p f callableContainerMap classMap (varDeclaration # rest) ds =
     (let lowerVarName = toLowerCase (var_name varDeclaration);
          push = (\<lambda>i. ds @ [\<lparr>info = i, diag_range = var_nameRange varDeclaration,
                               diag_file = fileRef f, relatedInformation = []\<rparr>]);
          ds' =
            (if var_isFunctionType varDeclaration then
               (if globalCallableMap_has p lowerVarName then
                  push (localVarFunctionShadowsParentFunction ''stdlib'')
                else if map_of callableContainerMap lowerVarName \<noteq> None then
                  push (localVarFunctionShadowsParentFunction ''scope'')
                else ds)
             else if \<not> globalCallableMap_has p lowerVarName then
               (if map_of callableContainerMap lowerVarName \<noteq> None then
                  push localVarShadowedByScopedFunction
                else
                  (case map_of classMap lowerVarName of
                     Some cls \<Rightarrow> push (localVarSameNameAsClass (class_getName cls BrighterScript))
                   | None \<Rightarrow> ds))
             else ds)
      in shadowedLocalVars_vars p f callableContainerMap classMap rest ds')"

definition diagnosticDetectShadowedLocalVars :: "Program \<Rightarrow> BscFile \<Rightarrow> CallableContainerMap
    \<Rightarrow> Scope \<Rightarrow> Scope" where
  "diagnosticDetectShadowedLocalVars p f callableContainerMap sc =
     (let (classMap, sc') = getClassMap p sc
      in sc'\<lparr>diagnostics :=
            fold (\<lambda>functionScope ds.
                    shadowedLocalVars_vars p f callableContainerMap classMap
                      (variableDeclarations functionScope) ds)
              (functionScopes f) (diagnostics sc')\<rparr>)"

fun functionCollisions_loop :: "Program \<Rightarrow> BscFile \<Rightarrow> (string \<times> ClassStatement) list
    \<Rightarrow> Callable list \<Rightarrow> BsDiagnostic list \<Rightarrow> BsDiagnostic list" where
  "functionCollisions_loop p f classMap [] ds = ds"
| "functionCollisions_loop p f classMap (func # rest) ds =
     (let funcName = getName func BrighterScript;
          lowerFuncName = toLowerCase funcName
      in if lowerFuncName \<noteq> [] then
           (let ds1 = (if globalCallableMap_has p lowerFuncName
                       then ds @ [\<lparr>info = scopeFunctionShadowedByBuiltInFunction,
                                   diag_range = nameRange func, diag_file = fileRef f,
                                   relatedInformation = []\<rparr>]
                       else ds);
                ds2 = (if map_of classMap lowerFuncName \<noteq> None
                       then ds1 @ [\<lparr>info = functionCannotHaveSameNameAsClass funcName,
                                    diag_range = nameRange func, diag_file = fileRef f,
                                    relatedInformation = []\<rparr>]
                       else ds1)
            in functionCollisions_loop p f classMap rest ds2)
         else functionCollisions_loop p f classMap rest ds)"

definition diagnosticDetectFunctionCollisions :: "Program \<Rightarrow> BscFile \<Rightarrow> Scope \<Rightarrow> Scope" where
  "diagnosticDetectFunctionCollisions p f sc =
     (let (classMap, sc') = getClassMap p sc
      in sc'\<lparr>diagnostics := functionCollisions_loop p f classMap (callables f) (diagnostics sc')\<rparr>)"

text \<open>
  \<open>detectVariableNamespaceCollisions\<close> reads \<open>this.namespaceLookup\<close> once for every
  parameter and every assignment; \<open>mk\<close> is the catalog's factory for the kind of name. The
  diagnostic is built before it is pushed, and building it reads
  \<open>namespace.file.pathAbsolute\<close>: for a value without a \<open>file\<close> that throws and nothing is
  pushed.
\<close>

fun namespaceCollisions_loop :: "Program \<Rightarrow> BscFile \<Rightarrow> (string \<Rightarrow> DiagnosticInfo)
    \<Rightarrow> (string \<times> Range) list \<Rightarrow> Scope \<Rightarrow> Scope Outcome" where
  "namespaceCollisions_loop p f mk [] sc = Returned sc"
| "namespaceCollisions_loop p f mk ((text, range') # rest) sc =
     (let lowerName = toLowerCase text;
          (lookup, sc1) = namespaceLookup p sc
      in case lookup of
           Inl e \<Rightarrow> Thrown e sc1
         | Inr namespaceLookup' \<Rightarrow>
             (case lookupGet namespaceLookup' lowerName of
                None \<Rightarrow> namespaceCollisions_loop p f mk rest sc1
              | Some (Container namespace) \<Rightarrow>
                  namespaceCollisions_loop p f mk rest
                    (sc1\<lparr>diagnostics := diagnostics sc1 @
                           [\<lparr>info = mk text, diag_range = range', diag_file = fileRef f,
                             relatedInformation =
                               [\<lparr>related_message = ''Namespace declared here'',
                                 location_path = pathAbsolute (nsc_file namespace),
                                 location_range = nsc_nameRange namespace\<rparr>]\<rparr>]\<rparr>)
              | Some ObjectConstructor \<Rightarrow> Thrown TypeError sc1
              | Some ObjectPrototype \<Rightarrow> Thrown TypeError sc1))"

definition detectVariableNamespaceCollisions :: "Program \<Rightarrow> BscFile \<Rightarrow> Scope \<Rightarrow> Scope Outcome" where
  "detectVariableNamespaceCollisions p f sc =
     (case namespaceCollisions_loop p f parameterMayNotHaveSameNameAsNamespace
             (concat (map (\<lambda>func. map (\<lambda>param. (fp_name_text param, fp_name_range param))
                                      (parameters func))
                          (functionExpressions f)))
             sc of
        Thrown e sc1 \<Rightarrow> Thrown e sc1
      | Returned sc1 \<Rightarrow>
          namespaceCollisions_loop p f variableMayNotHaveSameNameAsNamespace
            (map (\<lambda>assignment. (assign_name_text assignment, assign_name_range assignment))
                 (assignmentStatements f))
            sc1)"

subsection \<open>validate\<close>

text \<open>
  The callback \<open>validate\<close> hands to \<open>enumerateOwnFiles\<close>: the five checks of one file, the
  last of which can throw; and the loop of \<open>enumerateOwnFiles\<close> over the files, which an
  exception leaves.
\<close>

definition validate_file :: "Program \<Rightarrow> string \<Rightarrow> CallableContainerMap \<Rightarrow> BscFile \<Rightarrow> Scope
    \<Rightarrow> Scope Outcome" where
  "validate_file p this callableContainerMap f sc =
     detectVariableNamespaceCollisions p f
       (diagnosticDetectFunctionCollisions p f
          (diagnosticDetectShadowedLocalVars p f callableContainerMap
             (diagnosticDetectFunctionCallsWithWrongParamCount f callableContainerMap
                (diagnosticDetectCallsToUnknownFunctions this f callableContainerMap sc))))"

fun validate_files :: "Program \<Rightarrow> string \<Rightarrow> CallableContainerMap \<Rightarrow> BscFile list \<Rightarrow> Scope
    \<Rightarrow> Scope Outcome" where
  "validate_files p this callableContainerMap [] sc = Returned sc"
| "validate_files p this callableContainerMap (f # files) sc =
     (case validate_file p this callableContainerMap f sc of
        Thrown e sc' \<Rightarrow> Thrown e sc'
      | Returned sc' \<Rightarrow> validate_files p this callableContainerMap files sc')"

text \<open>
  \<open>validate(force)\<close> on the program's scopes. The parent, when there is one and it is not
  validated, is validated first; everything after that works on the scope itself, except
  \<open>getAllCallables\<close>, which also fills the parent's cache. An exception, from the parent's
  validation or from the checks of a file, leaves \<open>validate\<close> at once: what was written so
  far stays, and \<open>isValidated\<close> is not set.
\<close>

function validate :: "Program \<Rightarrow> Scopes \<Rightarrow> string \<Rightarrow> bool \<Rightarrow> Scopes Outcome" where
  "validate p h this force =
     (if isValidated (h this) = True \<and> \<not> force then Returned h
      else
        (case (case getParentScope p this of
                 Some parentScope \<Rightarrow>
                   (if isValidated (h parentScope) = False
                    then validate p h parentScope force
                    else Returned h)
               | None \<Rightarrow> Returned h) of
           Thrown e h1 \<Rightarrow> Thrown e h1
         | Returned h1 \<Rightarrow>
             (let h2 = h1(this := (h1 this)\<lparr>diagnostics := []\<rparr>);
                  (callables', h3) = getAllCallables p h2 this;
                  sorted = sortCallables p callables';
                  callableContainerMap = getCallableContainersByLowerName sorted;
                  (files, sc4) = getOwnFiles p (h3 this);
                  sc5 = addDiagnostics
                          (plugins_emit p ''beforeScopeValidate'' this sc4 files callableContainerMap)
                          sc4;
                  sc6 = diagnosticFindDuplicateFunctionDeclarations p this callableContainerMap sc5;
                  sc7 = diagnosticValidateScriptImportPaths p sc6;
                  sc8 = validateClasses p this sc7;
                  (ownFiles, sc9) = enumerateOwnFiles p sc8
              in case validate_files p this callableContainerMap ownFiles sc9 of
                   Thrown e sc10 \<Rightarrow> Thrown e (h3(this := sc10))
                 | Returned sc10 \<Rightarrow>
                     (let sc11 = addDiagnostics
                                   (plugins_emit p ''afterScopeValidate'' this sc10 files
                                      callableContainerMap)
                                   sc10
                      in Returned (h3(this := sc11\<lparr>isValidated := True\<rparr>))))))"
  by pat_completeness auto
termination
  by (relation "measure (\<lambda>(p, h, this, force). if this = globalScope p then 0 else 1)")
     (auto simp: getParentScope_def split: if_splits)

declare validate.simps [simp del]

section \<open>Notions used to state the properties\<close>

text \<open>
  The file \<open>getAllFiles\<close> loads for one dependency: the two branches of its loop body.
\<close>

definition resolveDependency :: "Program \<Rightarrow> string \<Rightarrow> BscFile option" where
  "resolveDependency p dependency =
     (if startsWith dependency ''component:''
      then map_option comp_file (getComponent p (replaceComponentPrefix dependency))
      else getFileByPkgPath p dependency)"

text \<open>
  A file is a direct dependency of a scope when one of the direct dependencies of the scope's
  key resolves to it.
\<close>

definition isDirectDependency :: "Program \<Rightarrow> Scope \<Rightarrow> BscFile \<Rightarrow> bool" where
  "isDirectDependency p sc f =
     (\<exists>d \<in> set (dependencies (dependencyGraph p) (dependencyGraphKey sc)).
        resolveDependency p d = Some f)"

text \<open>
  The \<open>getAllFiles\<close> slot is current when it is empty or holds what its factory computes from
  the program as it is: the state after \<open>invalidate\<close> and after every \<open>getAllFiles\<close> that
  follows it.
\<close>

definition allFilesSlotCurrent :: "Program \<Rightarrow> Scope \<Rightarrow> bool" where
  "allFilesSlotCurrent p sc =
     (case slot_getAllFiles (cache sc) of
        None \<Rightarrow> True
      | Some files \<Rightarrow> files = getAllFiles_factory p sc)"

text \<open>
  No two dependencies of the list resolve to files with the same package path.
\<close>

definition resolveToDistinctPkgPaths :: "Program \<Rightarrow> string list \<Rightarrow> bool" where
  "resolveToDistinctPkgPaths p deps =
     (\<forall>d1 \<in> set deps. \<forall>d2 \<in> set deps.
        (case (resolveDependency p d1, resolveDependency p d2) of
           (Some f1, Some f2) \<Rightarrow> pkgPath f1 = pkgPath f2 \<longrightarrow> d1 = d2
         | _ \<Rightarrow> True))"

text \<open>
  The validation of the parent, which \<open>validate\<close> runs first when the parent is not
  validated, throws.
\<close>

definition parentValidationThrows :: "Program \<Rightarrow> Scopes \<Rightarrow> string \<Rightarrow> bool" where
  "parentValidationThrows p h this =
     (case getParentScope p this of
        None \<Rightarrow> False
      | Some parentScope \<Rightarrow>
          isValidated (h parentScope) = False
          \<and> thrown (validate p h parentScope False) \<noteq> None)"

subsection \<open>What the checks are expected to report\<close>

text \<open>
  The following definitions follow the wording of the specification, not the loops of the
  source; the properties below compare the two.
\<close>

text \<open>
  Arity: \<open>minParams\<close> is the count of the non-optional parameters, \<open>maxParams\<close> the count of
  all parameters of the first callable with the call's lower-case name. A call with an
  argument count outside \<open>[minParams, maxParams]\<close> gets one diagnostic, whose text is
  \<open>maxParams\<close> when the two are equal and \<open>minParams-maxParams\<close> otherwise; a call whose
  name matches no callable gets none.
\<close>

definition minParamsOf :: "Callable \<Rightarrow> nat" where
  "minParamsOf c = length (filter (\<lambda>param. \<not> isOptional param) (params c))"

definition maxParamsOf :: "Callable \<Rightarrow> nat" where
  "maxParamsOf c = length (params c)"

definition expectedArityDiagnostics :: "BscFile \<Rightarrow> CallableContainerMap \<Rightarrow> FunctionCall \<Rightarrow> BsDiagnostic list" where
  "expectedArityDiagnostics f m expCall =
     (case firstCallableContainer m (toLowerCase (call_name expCall)) of
        None \<Rightarrow> []
      | Some known \<Rightarrow>
          (if length (call_args expCall) < minParamsOf (callable known)
              \<or> length (call_args expCall) > maxParamsOf (callable known)
           then [\<lparr>info = mismatchArgumentCount
                           (if minParamsOf (callable known) = maxParamsOf (callable known)
                            then ParamCount (maxParamsOf (callable known))
                            else ParamRange (numberToString (minParamsOf (callable known)) @ ''-''
                                             @ numberToString (maxParamsOf (callable known))))
                           (length (call_args expCall)),
                   diag_range = call_nameRange expCall,
                   diag_file = fileRef f,
                   relatedInformation = []\<rparr>]
           else []))"

text \<open>
  Duplicates and overrides: the containers of one lower-case name are partitioned into
  global-scope callables, own-scope callables and non-global ancestor callables. The class
  of the global-scope callables comes first, so the own-scope class holds the containers
  surfaced by the scope itself and not by the global scope, and the non-global ancestor class
  those surfaced by a scope that is neither the global scope nor the scope itself.
\<close>

definition ownCallablesOf :: "Program \<Rightarrow> string \<Rightarrow> CallableContainer list \<Rightarrow> CallableContainer list" where
  "ownCallablesOf p this containers =
     filter (\<lambda>c. scope c \<noteq> globalScope p \<and> scope c = this) containers"

definition ancestorNonGlobalCallablesOf :: "Program \<Rightarrow> string \<Rightarrow> CallableContainer list \<Rightarrow> CallableContainer list" where
  "ancestorNonGlobalCallablesOf p this containers =
     filter (\<lambda>c. scope c \<noteq> globalScope p \<and> scope c \<noteq> this) containers"

fun isOverridesAncestor :: "DiagnosticInfo \<Rightarrow> bool" where
  "isOverridesAncestor (overridesAncestorFunction a b c d) = True"
| "isOverridesAncestor other = False"

fun isDuplicateImplementation :: "DiagnosticInfo \<Rightarrow> bool" where
  "isDuplicateImplementation (duplicateFunctionImplementation a b) = True"
| "isDuplicateImplementation other = False"

text \<open>
  With at least one own and at least one non-global ancestor container, every own callable
  gets an override diagnostic that refers to the last ancestor container, unless the name is
  \<open>init\<close> or that ancestor's callable lives in the same file as the own callable.
\<close>

definition expectedOverrides :: "Program \<Rightarrow> string \<Rightarrow> string \<Rightarrow> CallableContainer list \<Rightarrow> BsDiagnostic list" where
  "expectedOverrides p this lowerName containers =
     (let own = ownCallablesOf p this containers;
          ancestors = ancestorNonGlobalCallablesOf p this containers
      in if own \<noteq> [] \<and> ancestors \<noteq> [] \<and> lowerName \<noteq> ''init''
         then map (\<lambda>c. overridesAncestorDiagnostic c (last ancestors))
                (filter (\<lambda>c. address (callable_file (callable (last ancestors)))
                              \<noteq> address (callable_file (callable c))) own)
         else [])"

text \<open>
  With two or more callables in the own-scope class, each of them gets a duplicate
  diagnostic; with at most one, none does.
\<close>

definition expectedDuplicates :: "Program \<Rightarrow> string \<Rightarrow> CallableContainer list \<Rightarrow> BsDiagnostic list" where
  "expectedDuplicates p this containers =
     (let own = ownCallablesOf p this containers
      in if 2 \<le> length own then map duplicateFunctionDiagnostic own else [])"

text \<open>
  The own callables of a scope in the plain sense: the containers the scope itself surfaced,
  whichever scope it is. For them: with two or more, every one gets a duplicate diagnostic;
  with at most one, none does.
\<close>

definition callablesSurfacedBy :: "string \<Rightarrow> CallableContainer list \<Rightarrow> CallableContainer list" where
  "callablesSurfacedBy this containers = filter (\<lambda>c. scope c = this) containers"

definition duplicatesPerOwnCallable :: "string \<Rightarrow> CallableContainer list \<Rightarrow> BsDiagnostic list" where
  "duplicatesPerOwnCallable this containers =
     (let own = callablesSurfacedBy this containers
      in if 2 \<le> length own then map duplicateFunctionDiagnostic own else [])"

text \<open>
  Script imports: the import is resolved by case-insensitive package path among the given
  files. Unresolved with an empty text (after trimming): source cannot be empty; unresolved
  otherwise: referenced file does not exist; resolved to a file whose package path is not the
  import's: case mismatch with the file's package path; resolved with the same package path:
  nothing.
\<close>

definition importDiagnostic :: "FileReference \<Rightarrow> DiagnosticInfo \<Rightarrow> BsDiagnostic" where
  "importDiagnostic scriptImport i =
     \<lparr>info = i, diag_range = filePathRange scriptImport,
      diag_file = sourceFile scriptImport, relatedInformation = []\<rparr>"

definition expectedImportDiagnostics :: "BscFile list \<Rightarrow> FileReference \<Rightarrow> BsDiagnostic list" where
  "expectedImportDiagnostics files scriptImport =
     (case find (\<lambda>f. toLowerCase (pkgPath f) = toLowerCase (import_pkgPath scriptImport)) files of
        None \<Rightarrow>
          (if trim (import_text scriptImport) = []
           then [importDiagnostic scriptImport scriptSrcCannotBeEmpty]
           else [importDiagnostic scriptImport referencedFileDoesNotExist])
      | Some referenced \<Rightarrow>
          (if pkgPath referenced = import_pkgPath scriptImport then []
           else [importDiagnostic scriptImport (scriptImportCaseMismatch (pkgPath referenced))]))"

text \<open>
  Unknown calls: a call is reported when it is not \<open>super\<close> in a \<open>.bs\<close> file, the function
  scope at the call site (if any) declares no variable with the call's lower-case name,
  whatever its type, and the map has no callable under that name.
\<close>

definition unknownCallDiagnostic :: "string \<Rightarrow> BscFile \<Rightarrow> FunctionCall \<Rightarrow> BsDiagnostic" where
  "unknownCallDiagnostic this f expCall =
     \<lparr>info = callToUnknownFunction (call_name expCall) this,
      diag_range = call_nameRange expCall, diag_file = fileRef f, relatedInformation = []\<rparr>"

definition hasLocalVariable :: "BscFile \<Rightarrow> FunctionCall \<Rightarrow> bool" where
  "hasLocalVariable f expCall =
     (case getFunctionScopeAtPosition f (range_start (call_nameRange expCall)) of
        None \<Rightarrow> False
      | Some functionScope \<Rightarrow>
          toLowerCase (call_name expCall)
            \<in> set (map (\<lambda>v. toLowerCase (var_name v)) (variableDeclarations functionScope)))"

definition hasCallable :: "CallableContainerMap \<Rightarrow> string \<Rightarrow> bool" where
  "hasCallable m lowerName = (case map_of m lowerName of None \<Rightarrow> False | Some cs \<Rightarrow> cs \<noteq> [])"

definition expectedUnknownCall :: "string \<Rightarrow> BscFile \<Rightarrow> CallableContainerMap \<Rightarrow> FunctionCall \<Rightarrow> BsDiagnostic list" where
  "expectedUnknownCall this f m expCall =
     (if \<not> (extension f = ''.bs'' \<and> toLowerCase (call_name expCall) = ''super'')
         \<and> \<not> hasLocalVariable f expCall
         \<and> \<not> hasCallable m (toLowerCase (call_name expCall))
      then [unknownCallDiagnostic this f expCall]
      else [])"

section \<open>Example programs\<close>

text \<open>
  A script file without content, a scope as its constructor leaves it, and a program that
  serves a list of loaded files by case-insensitive package path. The program has no
  components, no plugins, no suppressed diagnostics, no built-in callables and a class
  validator that reports nothing; its \<open>localeCompare\<close> finds every two strings equal, so
  sorting keeps the order in which the callables were collected.
\<close>

definition brsFile :: "nat \<Rightarrow> string \<Rightarrow> string \<Rightarrow> BscFile" where
  "brsFile a pkg path =
     \<lparr>address = a, pkgPath = pkg, pathAbsolute = path,
      kind = BrsFile, extension = ''.brs'', hasTypedef = False,
      callables = [], functionCalls = [], functionScopes = [],
      getFunctionScopeAtPosition = (\<lambda>position. None),
      ownScriptImports = [], scriptTagImports = [],
      namespaceStatements = [], classStatements = [],
      functionExpressions = [], assignmentStatements = [],
      file_getDiagnostics = []\<rparr>"

definition newScope :: "string \<Rightarrow> Scope" where
  "newScope key =
     \<lparr>dependencyGraphKey = key, isValidated = False, diagnostics = [],
      cache = \<lparr>slot_getAllFiles = None, slot_classMap = None, slot_namespaceLookup = None\<rparr>\<rparr>"

definition programOf :: "DependencyGraph \<Rightarrow> BscFile list \<Rightarrow> Program" where
  "programOf g files =
     \<lparr>dependencyGraph = g,
      getFileByPkgPath = (\<lambda>path. find (\<lambda>f. toLowerCase (pkgPath f) = toLowerCase path) files),
      getComponent = (\<lambda>componentName. None),
      globalScope = ''global'',
      plugins_emit = (\<lambda>event this sc files callableContainerMap. []),
      diagnosticIsSuppressed = (\<lambda>d. False),
      localeCompare = (\<lambda>a b. 0),
      globalCallableMap_has = (\<lambda>lowerName. False),
      classValidator = (\<lambda>this sc. [])\<rparr>"

definition zeroRange :: Range where
  "zeroRange = createRange 0 0 0 0"

text \<open>A source scope with one file that declares the namespace \<open>A.B.C\<close>.\<close>

definition namespaceFile :: BscFile where
  "namespaceFile =
     (brsFile 1 ''pkg:/source/main.bs'' ''/project/source/main.bs'')
       \<lparr>extension := ''.bs'',
        namespaceStatements := [\<lparr>ns_name = ''A.B.C'', ns_nameRange = zeroRange, ns_body = []\<rparr>]\<rparr>"

definition namespaceProgram :: Program where
  "namespaceProgram =
     programOf [(''scope:source'', [''pkg:/source/main.bs''])] [namespaceFile]"

text \<open>
  A source scope whose key depends on \<open>main.brs\<close>, which in turn depends on \<open>lib.brs\<close>.
\<close>

definition mainFile :: BscFile where
  "mainFile = brsFile 1 ''pkg:/source/main.brs'' ''/project/source/main.brs''"

definition libFile :: BscFile where
  "libFile = brsFile 2 ''pkg:/source/lib.brs'' ''/project/source/lib.brs''"

definition chainProgram :: Program where
  "chainProgram =
     programOf [(''scope:source'', [''pkg:/source/main.brs'']),
                (''pkg:/source/main.brs'', [''pkg:/source/lib.brs''])]
               [mainFile, libFile]"

text \<open>
  A source scope whose key depends on the same file under two spellings of its package path.
\<close>

definition twoSpellingsProgram :: Program where
  "twoSpellingsProgram =
     programOf [(''scope:source'', [''pkg:/source/main.brs'', ''pkg:/source/Main.brs''])]
               [mainFile]"

text \<open>
  \<open>sub greet(name, prefix = "")\<close>, called with three arguments.
\<close>

definition callableIn :: "string \<Rightarrow> nat \<Rightarrow> string \<Rightarrow> Callable" where
  "callableIn n a pkg =
     \<lparr>name = n, getName = (\<lambda>mode. n),
      callable_file = \<lparr>address = a, pkgPath = pkg, pathAbsolute = ''/project/'' @ pkg\<rparr>,
      params = [], nameRange = createRange 0 4 0 9, hasNamespace = False\<rparr>"

definition greet :: Callable where
  "greet =
     (callableIn ''greet'' 1 ''pkg:/source/main.brs'')
       \<lparr>params := [\<lparr>param_name = ''name'', isOptional = False\<rparr>,
                   \<lparr>param_name = ''prefix'', isOptional = True\<rparr>]\<rparr>"

definition greetCall :: FunctionCall where
  "greetCall =
     \<lparr>call_name = ''greet'', call_nameRange = createRange 3 4 3 9,
      call_args = [''a'', ''b'', ''c'']\<rparr>"

definition greetFile :: BscFile where
  "greetFile = mainFile\<lparr>callables := [greet], functionCalls := [greetCall]\<rparr>"

definition greetMap :: CallableContainerMap where
  "greetMap = [(''greet'', [\<lparr>callable = greet, scope = ''source''\<rparr>])]"

text \<open>
  A scope \<open>child\<close> below a scope \<open>parent\<close>: both declare \<open>init\<close> and \<open>doWork\<close>, in
  different files.
\<close>

definition overrideMap :: CallableContainerMap where
  "overrideMap =
     [(''init'', [\<lparr>callable = callableIn ''init'' 1 ''pkg:/components/child.brs'', scope = ''child''\<rparr>,
                  \<lparr>callable = callableIn ''init'' 2 ''pkg:/components/parent.brs'', scope = ''parent''\<rparr>]),
      (''dowork'', [\<lparr>callable = callableIn ''doWork'' 1 ''pkg:/components/child.brs'', scope = ''child''\<rparr>,
                    \<lparr>callable = callableIn ''doWork'' 2 ''pkg:/components/parent.brs'', scope = ''parent''\<rparr>])]"

text \<open>Two declarations of \<open>run\<close> in the files of the scope \<open>source\<close>.\<close>

definition duplicateMap :: CallableContainerMap where
  "duplicateMap =
     [(''run'', [\<lparr>callable = callableIn ''run'' 1 ''pkg:/source/a.brs'', scope = ''source''\<rparr>,
                 \<lparr>callable = callableIn ''run'' 2 ''pkg:/source/b.brs'', scope = ''source''\<rparr>])]"

text \<open>
  A file that imports \<open>Pkg:/Lib/foo.brs\<close> while the loaded file is \<open>pkg:/lib/Foo.brs\<close>.
\<close>

definition fooFile :: BscFile where
  "fooFile = brsFile 2 ''pkg:/lib/Foo.brs'' ''/project/lib/Foo.brs''"

definition importingFile :: BscFile where
  "importingFile =
     mainFile\<lparr>ownScriptImports :=
       [\<lparr>import_pkgPath = ''Pkg:/Lib/foo.brs'', import_text = ''Pkg:/Lib/foo.brs'',
         filePathRange = createRange 0 8 0 24, sourceFile = fileRef mainFile\<rparr>]\<rparr>"

definition importProgram :: Program where
  "importProgram =
     programOf [(''scope:source'', [''pkg:/source/main.brs'', ''pkg:/lib/foo.brs''])]
               [importingFile, fooFile]"

text \<open>
  \<open>sub main(): foo(): bar(): end sub\<close>, where \<open>bar\<close> is a local variable of \<open>main\<close> that is
  not a function and nothing named \<open>foo\<close> or \<open>bar\<close> is declared.
\<close>

definition fooCall :: FunctionCall where
  "fooCall = \<lparr>call_name = ''foo'', call_nameRange = createRange 1 4 1 7, call_args = []\<rparr>"

definition barCall :: FunctionCall where
  "barCall = \<lparr>call_name = ''bar'', call_nameRange = createRange 2 4 2 7, call_args = []\<rparr>"

definition callsFile :: BscFile where
  "callsFile =
     mainFile\<lparr>functionCalls := [fooCall, barCall],
              getFunctionScopeAtPosition :=
                (\<lambda>position. Some \<lparr>variableDeclarations =
                   [\<lparr>var_name = ''bar'', var_isFunctionType = False,
                     var_nameRange = createRange 0 4 0 7\<rparr>]\<rparr>)\<rparr>"

text \<open>
  \<open>sub main(constructor)\<close>: a file whose one function has a parameter named
  \<open>constructor\<close>, in the source scope of a program that declares no namespace.
\<close>

definition constructorFile :: BscFile where
  "constructorFile =
     mainFile\<lparr>functionExpressions :=
       [\<lparr>parameters = [\<lparr>fp_name_text = ''constructor'',
                         fp_name_range = createRange 0 9 0 20\<rparr>]\<rparr>]\<rparr>"

definition constructorProgram :: Program where
  "constructorProgram =
     programOf [(''scope:source'', [''pkg:/source/main.brs''])] [constructorFile]"

text \<open>
  A global scope whose own two files both declare \<open>run\<close>.
\<close>

definition runFileA :: BscFile where
  "runFileA =
     (brsFile 1 ''pkg:/source/a.brs'' ''/project/source/a.brs'')
       \<lparr>callables := [callableIn ''run'' 1 ''pkg:/source/a.brs'']\<rparr>"

definition runFileB :: BscFile where
  "runFileB =
     (brsFile 2 ''pkg:/source/b.brs'' ''/project/source/b.brs'')
       \<lparr>callables := [callableIn ''run'' 2 ''pkg:/source/b.brs'']\<rparr>"

definition runProgram :: Program where
  "runProgram =
     programOf [(''scope:global'', [''pkg:/source/a.brs'', ''pkg:/source/b.brs''])]
               [runFileA, runFileB]"

text \<open>A scope that holds one diagnostic of its own.\<close>

definition scopeWithDiagnostic :: Scope where
  "scopeWithDiagnostic =
     (newScope ''scope:source'')
       \<lparr>isValidated := True,
        diagnostics := [unknownCallDiagnostic ''source'' mainFile fooCall]\<rparr>"

text \<open>
  The program whose source scope holds the file with the calls to \<open>foo\<close> and \<open>bar\<close>, and
  its two scopes, \<open>source\<close> and \<open>global\<close>, as their constructors leave them.
\<close>

definition callsProgram :: Program where
  "callsProgram = programOf [(''scope:source'', [''pkg:/source/main.brs''])] [callsFile]"

definition callsScopes :: Scopes where
  "callsScopes = (\<lambda>n. newScope ''scope:global'')(''source'' := newScope ''scope:source'')"

text \<open>
  The global scope of these programs after its validation, and the source scope of the
  program with the parameter \<open>constructor\<close> as an interrupted \<open>validate\<close> leaves it.
\<close>

definition validatedGlobal :: Scope where
  "validatedGlobal =
     \<lparr>dependencyGraphKey = ''scope:global'', isValidated = True, diagnostics = [],
      cache = \<lparr>slot_getAllFiles = Some [], slot_classMap = None, slot_namespaceLookup = None\<rparr>\<rparr>"

definition thrownSource :: Scope where
  "thrownSource =
     \<lparr>dependencyGraphKey = ''scope:source'', isValidated = False, diagnostics = [],
      cache = \<lparr>slot_getAllFiles = Some [constructorFile], slot_classMap = Some [],
               slot_namespaceLookup = Some []\<rparr>\<rparr>"

section \<open>Files of a scope: properties\<close>

lemmas example_defs =
  getOwnFiles_def getAllFiles_def getAllFiles_factory_def programOf_def newScope_def
  enumerateAllFiles_def enumerateOwnFiles_def getAllDependencies_def dependencies_def
  startsWith_def replaceComponentPrefix_def toLowerCase_def toLowerCaseChar_def brsFile_def
  Let_def resolveDependency_def

lemma getAllFiles_loop_eq:
  "getAllFiles_loop p deps result = result @ List.map_filter (resolveDependency p) deps"
  by (induction deps arbitrary: result)
     (auto simp: resolveDependency_def split: option.splits)

lemma getAllFiles_factory_eq:
  "getAllFiles_factory p sc =
     List.map_filter (resolveDependency p)
       (getAllDependencies (dependencyGraph p) (dependencyGraphKey sc))"
  by (simp add: getAllFiles_factory_def getAllFiles_loop_eq)

lemma getAllFiles_current:
  "allFilesSlotCurrent p sc \<Longrightarrow> fst (getAllFiles p sc) = getAllFiles_factory p sc"
  by (auto simp: allFilesSlotCurrent_def getAllFiles_def Let_def split: option.splits)

lemma walk_distinct: "distinct seen \<Longrightarrow> distinct (walk g stack seen)"
  by (induction g stack seen rule: walk.induct) auto

lemma getAllDependencies_distinct: "distinct (getAllDependencies g key)"
  by (simp add: getAllDependencies_def walk_distinct)

lemma set_map_filter: "set (List.map_filter r xs) = {y. \<exists>x \<in> set xs. r x = Some y}"
  by (induction xs) (auto simp: split: option.splits)

lemma distinct_map_filter_pkgPath:
  assumes "distinct deps"
    and "\<And>d1 d2 f1 f2. d1 \<in> set deps \<Longrightarrow> d2 \<in> set deps \<Longrightarrow> r d1 = Some f1 \<Longrightarrow> r d2 = Some f2
           \<Longrightarrow> pkgPath f1 = pkgPath f2 \<Longrightarrow> d1 = d2"
  shows "distinct (map pkgPath (List.map_filter r deps))"
  using assms
proof (induction deps)
  case Nil
  then show ?case by simp
next
  case (Cons d deps)
  have ih: "distinct (map pkgPath (List.map_filter r deps))"
    using Cons by auto
  show ?case
  proof (cases "r d")
    case None
    then show ?thesis using ih by simp
  next
    case (Some f)
    have "pkgPath f \<notin> pkgPath ` set (List.map_filter r deps)"
    proof
      assume "pkgPath f \<in> pkgPath ` set (List.map_filter r deps)"
      then obtain d' f' where d': "d' \<in> set deps" "r d' = Some f'" "pkgPath f' = pkgPath f"
        by (auto simp: set_map_filter)
      have "d = d'"
        using Cons.prems(2)[of d d' f f'] d' Some by simp
      with d'(1) Cons.prems(1) show False by simp
    qed
    then show ?thesis using ih Some by simp
  qed
qed

lemma isKnownNamespace_always_false: "fst (isKnownNamespace p sc namespaceName) = False"
  by (simp add: isKnownNamespace_def Let_def split_def)

text \<open>
  C1 (the code at a failing input). A source scope's only file has no typedef and declares
  the namespace \<open>A.B.C\<close>; the callback finds the match for \<open>A\<close>, \<open>A.B\<close> and \<open>A.B.C\<close> and
  returns \<open>true\<close>, and \<open>isKnownNamespace\<close> still answers \<open>false\<close> for each of the three names,
  where the claim says \<open>true\<close>.
\<close>

theorem isKnownNamespace_declared_namespace_false:
  "map ns_name (concat (map namespaceStatements
       (fst (enumerateAllFiles namespaceProgram (newScope ''scope:source''))))) = [''A.B.C'']
   \<and> isKnownNamespace_callback (toLowerCase ''A'') (namespaceStatements namespaceFile) = Some True
   \<and> isKnownNamespace_callback (toLowerCase ''A.B'') (namespaceStatements namespaceFile) = Some True
   \<and> isKnownNamespace_callback (toLowerCase ''A.B.C'') (namespaceStatements namespaceFile) = Some True
   \<and> fst (isKnownNamespace namespaceProgram (newScope ''scope:source'') ''A'') = False
   \<and> fst (isKnownNamespace namespaceProgram (newScope ''scope:source'') ''A.B'') = False
   \<and> fst (isKnownNamespace namespaceProgram (newScope ''scope:source'') ''A.B.C'') = False"
  by (simp add: isKnownNamespace_always_false example_defs namespaceProgram_def namespaceFile_def)

text \<open>
  C2 as stated fails: \<open>lib.brs\<close> is reached from the scope's key only through \<open>main.brs\<close>,
  it is no direct dependency of the key, and \<open>getOwnFiles\<close> returns it.
\<close>

theorem getOwnFiles_indirect_dependency_counterexample:
  "libFile \<in> set (fst (getOwnFiles chainProgram (newScope ''scope:source'')))
   \<and> \<not> isDirectDependency chainProgram (newScope ''scope:source'') libFile"
  by (simp add: example_defs isDirectDependency_def chainProgram_def mainFile_def libFile_def)

text \<open>
  C2, amended. \<open>getOwnFiles\<close> of the generic scope is \<open>getAllFiles\<close>: the same list and the
  same cache effect. With a current \<open>getAllFiles\<close> slot, a file is in the list if and only
  if some dependency of the scope's key, direct or transitive, resolves to it.
\<close>

theorem getOwnFiles_is_getAllFiles:
  "getOwnFiles p sc = getAllFiles p sc
   \<and> (allFilesSlotCurrent p sc \<longrightarrow>
        (f \<in> set (fst (getOwnFiles p sc)) \<longleftrightarrow>
           (\<exists>d \<in> set (getAllDependencies (dependencyGraph p) (dependencyGraphKey sc)).
              resolveDependency p d = Some f)))"
proof -
  have "allFilesSlotCurrent p sc \<Longrightarrow>
          set (fst (getAllFiles p sc)) =
            {y. \<exists>d \<in> set (getAllDependencies (dependencyGraph p) (dependencyGraphKey sc)).
                  resolveDependency p d = Some y}"
    by (simp add: getAllFiles_current getAllFiles_factory_eq set_map_filter)
  then show ?thesis
    by (auto simp: getOwnFiles_def)
qed

theorem getOwnFiles_is_getAllFiles_witness:
  "allFilesSlotCurrent chainProgram (newScope ''scope:source'')
   \<and> getOwnFiles chainProgram (newScope ''scope:source'')
       = getAllFiles chainProgram (newScope ''scope:source'')
   \<and> libFile \<in> set (fst (getOwnFiles chainProgram (newScope ''scope:source'')))
   \<and> (\<exists>d \<in> set (getAllDependencies (dependencyGraph chainProgram)
                    (dependencyGraphKey (newScope ''scope:source''))).
         resolveDependency chainProgram d = Some libFile)"
proof -
  have current: "allFilesSlotCurrent chainProgram (newScope ''scope:source'')"
    by (simp add: allFilesSlotCurrent_def newScope_def)
  have member: "libFile \<in> set (fst (getOwnFiles chainProgram (newScope ''scope:source'')))"
    by (simp add: example_defs chainProgram_def mainFile_def libFile_def)
  show ?thesis
    using getOwnFiles_is_getAllFiles [of chainProgram "newScope ''scope:source''" libFile]
      current member
    by blast
qed

text \<open>
  C3 as stated fails: the key's two dependencies are different strings, both resolve to the
  one loaded file, and \<open>getAllFiles\<close> returns that file twice; nothing in it compares
  package paths.
\<close>

theorem getAllFiles_same_pkgPath_twice_counterexample:
  "getAllDependencies (dependencyGraph twoSpellingsProgram)
       (dependencyGraphKey (newScope ''scope:source''))
     = [''pkg:/source/main.brs'', ''pkg:/source/Main.brs'']
   \<and> map pkgPath (fst (getAllFiles twoSpellingsProgram (newScope ''scope:source'')))
       = [''pkg:/source/main.brs'', ''pkg:/source/main.brs'']
   \<and> \<not> distinct (map pkgPath (fst (getAllFiles twoSpellingsProgram (newScope ''scope:source''))))"
  by (simp add: example_defs twoSpellingsProgram_def mainFile_def)

text \<open>
  C3, amended. With a current \<open>getAllFiles\<close> slot, \<open>getAllFiles\<close> returns the files the
  dependencies of the scope's key resolve to, in the order of the dependency-graph
  traversal, a dependency that resolves to nothing left out. The traversal lists no
  dependency twice; the files are not compared, and the list has no two files with the same
  package path provided no two dependencies resolve to files with the same package path.
\<close>

theorem getAllFiles_traversal_order:
  "allFilesSlotCurrent p sc \<Longrightarrow>
     fst (getAllFiles p sc)
       = List.map_filter (resolveDependency p)
           (getAllDependencies (dependencyGraph p) (dependencyGraphKey sc))
     \<and> distinct (getAllDependencies (dependencyGraph p) (dependencyGraphKey sc))
     \<and> (resolveToDistinctPkgPaths p
            (getAllDependencies (dependencyGraph p) (dependencyGraphKey sc))
          \<longrightarrow> distinct (map pkgPath (fst (getAllFiles p sc))))"
proof -
  assume current: "allFilesSlotCurrent p sc"
  let ?deps = "getAllDependencies (dependencyGraph p) (dependencyGraphKey sc)"
  have files: "fst (getAllFiles p sc) = List.map_filter (resolveDependency p) ?deps"
    using current by (simp add: getAllFiles_current getAllFiles_factory_eq)
  have "distinct (map pkgPath (List.map_filter (resolveDependency p) ?deps))"
    if inj: "resolveToDistinctPkgPaths p ?deps"
  proof (rule distinct_map_filter_pkgPath [OF getAllDependencies_distinct])
    fix d1 d2 f1 f2
    assume "d1 \<in> set ?deps" "d2 \<in> set ?deps"
      "resolveDependency p d1 = Some f1" "resolveDependency p d2 = Some f2"
      "pkgPath f1 = pkgPath f2"
    with inj show "d1 = d2"
      unfolding resolveToDistinctPkgPaths_def by fastforce
  qed
  with files show ?thesis
    by (simp add: getAllDependencies_distinct)
qed

theorem getAllFiles_traversal_order_witness:
  "allFilesSlotCurrent chainProgram (newScope ''scope:source'')
   \<and> resolveToDistinctPkgPaths chainProgram
        (getAllDependencies (dependencyGraph chainProgram)
           (dependencyGraphKey (newScope ''scope:source'')))
   \<and> fst (getAllFiles chainProgram (newScope ''scope:source'')) = [mainFile, libFile]
   \<and> getAllDependencies (dependencyGraph chainProgram)
          (dependencyGraphKey (newScope ''scope:source''))
        = [''pkg:/source/main.brs'', ''pkg:/source/lib.brs'']
   \<and> distinct (map pkgPath (fst (getAllFiles chainProgram (newScope ''scope:source''))))"
proof -
  have current: "allFilesSlotCurrent chainProgram (newScope ''scope:source'')"
    by (simp add: allFilesSlotCurrent_def newScope_def)
  have deps: "getAllDependencies (dependencyGraph chainProgram)
          (dependencyGraphKey (newScope ''scope:source''))
        = [''pkg:/source/main.brs'', ''pkg:/source/lib.brs'']"
    by (simp add: example_defs chainProgram_def)
  have inj: "resolveToDistinctPkgPaths chainProgram
        (getAllDependencies (dependencyGraph chainProgram)
           (dependencyGraphKey (newScope ''scope:source'')))"
    unfolding deps
    by (simp add: resolveToDistinctPkgPaths_def example_defs chainProgram_def mainFile_def libFile_def)
  have files: "fst (getAllFiles chainProgram (newScope ''scope:source'')) = [mainFile, libFile]"
    by (simp add: example_defs chainProgram_def mainFile_def libFile_def)
  have "distinct (map pkgPath (fst (getAllFiles chainProgram (newScope ''scope:source''))))"
    using getAllFiles_traversal_order [OF current] inj by (elim conjE) (erule mp)
  with current inj deps files show ?thesis
    by (intro conjI)
qed

section \<open>Checks of the pipeline: properties\<close>

lemma toLowerCaseChar_idem: "toLowerCaseChar (toLowerCaseChar c) = toLowerCaseChar c"
  by (auto simp: toLowerCaseChar_def split: option.splits if_splits)

lemma toLowerCase_idem: "toLowerCase (toLowerCase s) = toLowerCase s"
  by (simp add: toLowerCase_def toLowerCaseChar_idem)

lemma numberToString_small: "n < 10 \<Longrightarrow> numberToString n = [digitChar n]"
  by (simp add: numberToString.simps)

lemma filter_concat_map:
  "filter P (concat (map f xs)) = concat (map (\<lambda>x. filter P (f x)) xs)"
  by (induction xs) auto

subsection \<open>Argument counts\<close>

lemma countParams_eq:
  "countParams ps (mn, mx) =
     (mn + length (filter (\<lambda>param. \<not> isOptional param) ps), mx + length ps)"
  by (induction ps arbitrary: mn mx) auto

lemma wrongParamCount_loop_eq:
  "wrongParamCount_loop f m calls ds = ds @ concat (map (expectedArityDiagnostics f m) calls)"
proof (induction calls arbitrary: ds)
  case Nil
  show ?case by simp
next
  case (Cons expCall calls)
  show ?case
    by (cases "firstCallableContainer m (toLowerCase (call_name expCall))")
       (auto simp: Cons.IH countParams_eq minParamsOf_def maxParamsOf_def Let_def
          expectedArityDiagnostics_def)
qed

text \<open>
  C4. \<open>diagnosticDetectFunctionCallsWithWrongParamCount\<close> appends to the scope's diagnostics,
  call by call in the order of the file's calls, what the arity rule expects: for a call
  whose lower-case name has a first callable in the map, one mismatch diagnostic if and only
  if the argument count is below \<open>minParams\<close> or above \<open>maxParams\<close>, with the text
  \<open>maxParams\<close> or \<open>minParams-maxParams\<close>; for any other call nothing.
\<close>

theorem wrongParamCount_diagnostics:
  "diagnostics (diagnosticDetectFunctionCallsWithWrongParamCount f m sc)
     = diagnostics sc @ concat (map (expectedArityDiagnostics f m) (functionCalls f))"
  by (simp add: diagnosticDetectFunctionCallsWithWrongParamCount_def wrongParamCount_loop_eq)

text \<open>
  The scenario of the specification: \<open>greet\<close> has one required and one optional parameter
  and is called with three arguments; the one diagnostic is \<open>mismatchArgumentCount("1-2", 3)\<close>.
\<close>

theorem wrongParamCount_diagnostics_witness:
  "diagnostics (diagnosticDetectFunctionCallsWithWrongParamCount greetFile greetMap
       (newScope ''scope:source''))
     = [\<lparr>info = mismatchArgumentCount (ParamRange ''1-2'') 3,
         diag_range = createRange 3 4 3 9,
         diag_file = fileRef greetFile,
         relatedInformation = []\<rparr>]"
proof -
  have "diagnostics (diagnosticDetectFunctionCallsWithWrongParamCount greetFile greetMap
          (newScope ''scope:source''))
        = diagnostics (newScope ''scope:source'')
          @ concat (map (expectedArityDiagnostics greetFile greetMap) (functionCalls greetFile))"
    by (rule wrongParamCount_diagnostics)
  also have "\<dots> = [\<lparr>info = mismatchArgumentCount (ParamRange ''1-2'') 3,
         diag_range = createRange 3 4 3 9,
         diag_file = fileRef greetFile,
         relatedInformation = []\<rparr>]"
    by (simp add: expectedArityDiagnostics_def firstCallableContainer_def minParamsOf_def
          maxParamsOf_def greetFile_def greetMap_def greet_def greetCall_def callableIn_def
          newScope_def toLowerCase_def toLowerCaseChar_def numberToString_small digitChar_def)
  finally show ?thesis .
qed

subsection \<open>Duplicates and overrides\<close>

lemma classifyContainers_eq:
  "classifyContainers p this cs (g, n, own, anc) =
     (g @ filter (\<lambda>c. scope c = globalScope p) cs,
      n @ filter (\<lambda>c. scope c \<noteq> globalScope p) cs,
      own @ ownCallablesOf p this cs,
      anc @ ancestorNonGlobalCallablesOf p this cs)"
  by (induction cs arbitrary: g n own anc)
     (auto simp: ownCallablesOf_def ancestorNonGlobalCallablesOf_def)

lemma overrides_loop_eq:
  "overrides_loop lowerName shadowed own ds =
     ds @ (if lowerName \<noteq> ''init''
           then map (\<lambda>c. overridesAncestorDiagnostic c shadowed)
                  (filter (\<lambda>c. address (callable_file (callable shadowed))
                                \<noteq> address (callable_file (callable c))) own)
           else [])"
  by (induction own arbitrary: ds) auto

lemma duplicates_loop_eq:
  "duplicates_loop own ds = ds @ map duplicateFunctionDiagnostic own"
  by (induction own arbitrary: ds) auto

lemma findDuplicates_entry_eq:
  "findDuplicates_entry p this (lowerName, containers) ds =
     ds @ expectedOverrides p this lowerName containers @ expectedDuplicates p this containers"
  by (auto simp: findDuplicates_entry_def classifyContainers_eq overrides_loop_eq
        duplicates_loop_eq expectedOverrides_def expectedDuplicates_def Let_def)

lemma findDuplicates_loop_eq:
  "findDuplicates_loop p this m ds =
     ds @ concat (map (\<lambda>(lowerName, containers).
            expectedOverrides p this lowerName containers
            @ expectedDuplicates p this containers) m)"
proof (induction m arbitrary: ds)
  case Nil
  show ?case by simp
next
  case (Cons entry m)
  obtain lowerName containers where entry: "entry = (lowerName, containers)"
    by (cases entry)
  show ?case
    by (simp add: entry Cons.IH findDuplicates_entry_eq)
qed

lemma expectedOverrides_kind:
  "filter (\<lambda>d. isOverridesAncestor (info d)) (expectedOverrides p this lowerName containers)
     = expectedOverrides p this lowerName containers"
  "filter (\<lambda>d. isDuplicateImplementation (info d))
     (expectedOverrides p this lowerName containers) = []"
  by (auto simp: expectedOverrides_def Let_def overridesAncestorDiagnostic_def filter_map comp_def)

lemma expectedDuplicates_kind:
  "filter (\<lambda>d. isDuplicateImplementation (info d)) (expectedDuplicates p this containers)
     = expectedDuplicates p this containers"
  "filter (\<lambda>d. isOverridesAncestor (info d)) (expectedDuplicates p this containers) = []"
  by (auto simp: expectedDuplicates_def Let_def duplicateFunctionDiagnostic_def filter_map comp_def)

text \<open>
  C5. The override diagnostics that \<open>diagnosticFindDuplicateFunctionDeclarations\<close> adds to
  the scope's diagnostics are, name by name in the order of the map, exactly the expected
  ones: given at least one own and one non-global ancestor container, one per own callable,
  referring to the last ancestor container, and none when the name is \<open>init\<close> or when that
  ancestor's callable is in the own callable's file.
\<close>

theorem overridesAncestor_diagnostics:
  "filter (\<lambda>d. isOverridesAncestor (info d))
      (drop (length (diagnostics sc))
         (diagnostics (diagnosticFindDuplicateFunctionDeclarations p this m sc)))
    = concat (map (\<lambda>(lowerName, containers). expectedOverrides p this lowerName containers) m)"
  by (simp add: diagnosticFindDuplicateFunctionDeclarations_def findDuplicates_loop_eq
        filter_concat_map split_def expectedOverrides_kind expectedDuplicates_kind)

text \<open>
  In the scope \<open>child\<close>, \<open>init\<close> and \<open>doWork\<close> both shadow a declaration of the scope
  \<open>parent\<close>; only \<open>doWork\<close> is reported.
\<close>

theorem overridesAncestor_diagnostics_witness:
  "map info (filter (\<lambda>d. isOverridesAncestor (info d))
      (drop (length (diagnostics (newScope ''child'')))
         (diagnostics (diagnosticFindDuplicateFunctionDeclarations (programOf [] []) ''child''
            overrideMap (newScope ''child'')))))
    = [overridesAncestorFunction ''doWork'' ''child'' ''pkg:/components/parent.brs'' ''parent'']"
proof -
  have emitted: "filter (\<lambda>d. isOverridesAncestor (info d))
      (drop (length (diagnostics (newScope ''child'')))
         (diagnostics (diagnosticFindDuplicateFunctionDeclarations (programOf [] []) ''child''
            overrideMap (newScope ''child''))))
    = concat (map (\<lambda>(lowerName, containers).
         expectedOverrides (programOf [] []) ''child'' lowerName containers) overrideMap)"
    by (rule overridesAncestor_diagnostics)
  have expected: "map info (concat (map (\<lambda>(lowerName, containers).
         expectedOverrides (programOf [] []) ''child'' lowerName containers) overrideMap))
    = [overridesAncestorFunction ''doWork'' ''child'' ''pkg:/components/parent.brs'' ''parent'']"
    by (simp add: expectedOverrides_def ownCallablesOf_def ancestorNonGlobalCallablesOf_def
          overridesAncestorDiagnostic_def overrideMap_def callableIn_def programOf_def Let_def)
  show ?thesis
    by (simp only: emitted expected)
qed

lemma ownCallablesOf_nonGlobal:
  "this \<noteq> globalScope p \<Longrightarrow> ownCallablesOf p this cs = callablesSurfacedBy this cs"
  unfolding ownCallablesOf_def callablesSurfacedBy_def
  by (rule filter_cong) auto

lemma ownCallablesOf_global: "ownCallablesOf p (globalScope p) cs = []"
  by (simp add: ownCallablesOf_def)

lemma expectedDuplicates_nonGlobal:
  "this \<noteq> globalScope p \<Longrightarrow>
     expectedDuplicates p this cs = duplicatesPerOwnCallable this cs"
  by (simp add: expectedDuplicates_def duplicatesPerOwnCallable_def ownCallablesOf_nonGlobal)

lemma expectedDuplicates_global: "expectedDuplicates p (globalScope p) cs = []"
  by (simp add: expectedDuplicates_def ownCallablesOf_global)

lemma duplicate_diagnostics_emitted:
  "filter (\<lambda>d. isDuplicateImplementation (info d))
      (drop (length (diagnostics sc))
         (diagnostics (diagnosticFindDuplicateFunctionDeclarations p this m sc)))
     = concat (map (\<lambda>(lowerName, containers). expectedDuplicates p this containers) m)"
  by (simp add: diagnosticFindDuplicateFunctionDeclarations_def findDuplicates_loop_eq
        filter_concat_map split_def expectedOverrides_kind expectedDuplicates_kind)

text \<open>
  C6 as stated fails. The global scope has two own files that both declare \<open>run\<close>;
  \<open>getOwnCallables\<close> surfaces both with the global scope as their scope, and the duplicate
  check, run for the global scope on the map of these callables, reports neither: a
  container whose scope is the global scope is put with the global callables before it is
  compared with \<open>this\<close>.
\<close>

theorem duplicateFunction_global_scope_counterexample:
  "map (\<lambda>c. (name (callable c), scope c))
       (fst (getOwnCallables runProgram ''global'' (newScope ''scope:global'')))
     = [(''run'', ''global''), (''run'', ''global'')]
   \<and> filter (\<lambda>d. isDuplicateImplementation (info d))
        (diagnostics (diagnosticFindDuplicateFunctionDeclarations runProgram ''global''
           (getCallableContainersByLowerName
              (fst (getOwnCallables runProgram ''global'' (newScope ''scope:global''))))
           (newScope ''scope:global'')))
     = []"
proof -
  have own: "fst (getOwnCallables runProgram ''global'' (newScope ''scope:global''))
      = [\<lparr>callable = callableIn ''run'' 1 ''pkg:/source/a.brs'', scope = ''global''\<rparr>,
         \<lparr>callable = callableIn ''run'' 2 ''pkg:/source/b.brs'', scope = ''global''\<rparr>]"
    by (simp add: example_defs runProgram_def runFileA_def runFileB_def getOwnCallables_def)
  have indexed: "getCallableContainersByLowerName
        [\<lparr>callable = callableIn ''run'' 1 ''pkg:/source/a.brs'', scope = ''global''\<rparr>,
         \<lparr>callable = callableIn ''run'' 2 ''pkg:/source/b.brs'', scope = ''global''\<rparr>]
      = [(''run'',
          [\<lparr>callable = callableIn ''run'' 1 ''pkg:/source/a.brs'', scope = ''global''\<rparr>,
           \<lparr>callable = callableIn ''run'' 2 ''pkg:/source/b.brs'', scope = ''global''\<rparr>])]"
    by (simp add: getCallableContainersByLowerName_def callableIn_def toLowerCase_def
          toLowerCaseChar_def)
  have global: "globalScope runProgram = ''global''"
    by (simp add: runProgram_def programOf_def)
  have none: "diagnostics (diagnosticFindDuplicateFunctionDeclarations runProgram ''global''
        [(''run'',
          [\<lparr>callable = callableIn ''run'' 1 ''pkg:/source/a.brs'', scope = ''global''\<rparr>,
           \<lparr>callable = callableIn ''run'' 2 ''pkg:/source/b.brs'', scope = ''global''\<rparr>])]
        (newScope ''scope:global'')) = []"
    by (simp add: diagnosticFindDuplicateFunctionDeclarations_def findDuplicates_entry_def
          global newScope_def)
  have surfaced: "map (\<lambda>c. (name (callable c), scope c))
       (fst (getOwnCallables runProgram ''global'' (newScope ''scope:global'')))
     = [(''run'', ''global''), (''run'', ''global'')]"
    by (simp add: own callableIn_def)
  have unreported: "filter (\<lambda>d. isDuplicateImplementation (info d))
        (diagnostics (diagnosticFindDuplicateFunctionDeclarations runProgram ''global''
           (getCallableContainersByLowerName
              (fst (getOwnCallables runProgram ''global'' (newScope ''scope:global''))))
           (newScope ''scope:global'')))
     = []"
    by (simp only: own indexed none filter.simps)
  from surfaced unreported show ?thesis
    by (rule conjI)
qed

text \<open>
  C6, amended. For every scope other than the global scope, the duplicate diagnostics that
  \<open>diagnosticFindDuplicateFunctionDeclarations\<close> adds to the scope's diagnostics are, name
  by name in the order of the map, one per own callable of a name with two or more own
  callables and none for a name with at most one; so a name with \<open>n \<ge> 2\<close> own callables
  gets \<open>n\<close> of them. For the global scope itself none is added: its callables count as
  global callables, not as own ones.
\<close>

theorem duplicateFunction_diagnostics:
  "(this \<noteq> globalScope p \<longrightarrow>
      filter (\<lambda>d. isDuplicateImplementation (info d))
        (drop (length (diagnostics sc))
           (diagnostics (diagnosticFindDuplicateFunctionDeclarations p this m sc)))
      = concat (map (\<lambda>(lowerName, containers). duplicatesPerOwnCallable this containers) m))
   \<and> (this = globalScope p \<longrightarrow>
      filter (\<lambda>d. isDuplicateImplementation (info d))
        (drop (length (diagnostics sc))
           (diagnostics (diagnosticFindDuplicateFunctionDeclarations p this m sc)))
      = [])
   \<and> length (duplicatesPerOwnCallable this containers)
     = (if 2 \<le> length (callablesSurfacedBy this containers)
        then length (callablesSurfacedBy this containers) else 0)"
proof (intro conjI impI)
  assume "this \<noteq> globalScope p"
  then show "filter (\<lambda>d. isDuplicateImplementation (info d))
        (drop (length (diagnostics sc))
           (diagnostics (diagnosticFindDuplicateFunctionDeclarations p this m sc)))
      = concat (map (\<lambda>(lowerName, containers). duplicatesPerOwnCallable this containers) m)"
    by (simp add: duplicate_diagnostics_emitted expectedDuplicates_nonGlobal)
next
  assume "this = globalScope p"
  then show "filter (\<lambda>d. isDuplicateImplementation (info d))
        (drop (length (diagnostics sc))
           (diagnostics (diagnosticFindDuplicateFunctionDeclarations p this m sc)))
      = []"
    by (simp add: duplicate_diagnostics_emitted expectedDuplicates_global)
next
  show "length (duplicatesPerOwnCallable this containers)
     = (if 2 \<le> length (callablesSurfacedBy this containers)
        then length (callablesSurfacedBy this containers) else 0)"
    by (simp add: duplicatesPerOwnCallable_def Let_def)
qed

text \<open>
  The scenario of the specification: two declarations of \<open>run\<close> in the files of the scope
  \<open>source\<close>, which is not the global scope, give two diagnostics, one anchored in each
  declaring file.
\<close>

theorem duplicateFunction_diagnostics_witness:
  "''source'' \<noteq> globalScope (programOf [] [])
   \<and> map (\<lambda>d. (info d, pkgPath (diag_file d)))
     (filter (\<lambda>d. isDuplicateImplementation (info d))
        (drop (length (diagnostics (newScope ''scope:source'')))
           (diagnostics (diagnosticFindDuplicateFunctionDeclarations (programOf [] []) ''source''
              duplicateMap (newScope ''scope:source'')))))
    = [(duplicateFunctionImplementation ''run'' ''source'', ''pkg:/source/a.brs''),
       (duplicateFunctionImplementation ''run'' ''source'', ''pkg:/source/b.brs'')]"
proof -
  have notGlobal: "''source'' \<noteq> globalScope (programOf [] [])"
    by (simp add: programOf_def)
  have emitted: "filter (\<lambda>d. isDuplicateImplementation (info d))
        (drop (length (diagnostics (newScope ''scope:source'')))
           (diagnostics (diagnosticFindDuplicateFunctionDeclarations (programOf [] []) ''source''
              duplicateMap (newScope ''scope:source''))))
    = concat (map (\<lambda>(lowerName, containers).
         duplicatesPerOwnCallable ''source'' containers) duplicateMap)"
    using duplicateFunction_diagnostics [of "''source''" "programOf [] []"
        "newScope ''scope:source''" duplicateMap "[]"] notGlobal
    by (elim conjE) (erule mp)
  have expected: "map (\<lambda>d. (info d, pkgPath (diag_file d)))
      (concat (map (\<lambda>(lowerName, containers).
         duplicatesPerOwnCallable ''source'' containers) duplicateMap))
    = [(duplicateFunctionImplementation ''run'' ''source'', ''pkg:/source/a.brs''),
       (duplicateFunctionImplementation ''run'' ''source'', ''pkg:/source/b.brs'')]"
    by (simp add: duplicatesPerOwnCallable_def callablesSurfacedBy_def
          duplicateFunctionDiagnostic_def duplicateMap_def callableIn_def Let_def)
  show ?thesis
    using notGlobal by (simp only: emitted expected simp_thms)
qed

subsection \<open>Script imports\<close>

lemma getAllFiles_again:
  "fst (getAllFiles p (snd (getAllFiles p sc))) = fst (getAllFiles p sc)"
  by (simp add: getAllFiles_def Let_def split: option.splits)

lemma getAllFiles_diagnostics_update:
  "fst (getAllFiles p (sc\<lparr>diagnostics := ds\<rparr>)) = fst (getAllFiles p sc)"
  by (simp add: getAllFiles_def getAllFiles_factory_def Let_def split: option.splits)

lemma diagnostics_getAllFiles: "diagnostics (snd (getAllFiles p sc)) = diagnostics sc"
  by (simp add: getAllFiles_def Let_def split: option.splits)

lemma validateScriptImportPaths_loop_eq:
  "diagnostics (validateScriptImportPaths_loop p scriptImports sc) =
     diagnostics sc @ concat (map (expectedImportDiagnostics (fst (getAllFiles p sc))) scriptImports)"
proof (induction scriptImports arbitrary: sc)
  case Nil
  show ?case by simp
next
  case (Cons scriptImport rest)
  let ?files = "fst (getAllFiles p sc)"
  let ?sc1 = "snd (getAllFiles p sc)"
  have same: "fst (getAllFiles p (?sc1\<lparr>diagnostics := ds\<rparr>)) = ?files" for ds
    by (simp add: getAllFiles_diagnostics_update getAllFiles_again)
  show ?case
  proof (cases "find (\<lambda>f. toLowerCase (pkgPath f) = toLowerCase (import_pkgPath scriptImport)) ?files")
    case None
    then show ?thesis
      by (simp add: getFileByRelativePath_def split_def Let_def Cons.IH same getAllFiles_again
            diagnostics_getAllFiles expectedImportDiagnostics_def importDiagnostic_def)
  next
    case (Some referenced)
    then show ?thesis
      by (simp add: getFileByRelativePath_def split_def Let_def Cons.IH same getAllFiles_again
            diagnostics_getAllFiles expectedImportDiagnostics_def importDiagnostic_def)
  qed
qed

text \<open>
  C7. \<open>diagnosticValidateScriptImportPaths\<close> appends to the scope's diagnostics, import by
  import, what the import rule expects, for the script imports of every own file without a
  typedef (\<open>ownScriptImports\<close> of a script file, \<open>scriptTagImports\<close> of a component file),
  each resolved by case-insensitive package path among the files \<open>getAllFiles\<close> returns.
  By \<open>expectedImportDiagnostics\<close> that is, for each import, exactly one of: source cannot
  be empty, referenced file does not exist, case mismatch with the resolved file's package
  path, or nothing.
\<close>

theorem scriptImport_diagnostics:
  "diagnostics (diagnosticValidateScriptImportPaths p sc)
     = diagnostics sc @
       concat (map (expectedImportDiagnostics (fst (getAllFiles p sc)))
         (concat (map (\<lambda>f. case kind f of
                              BrsFile \<Rightarrow> ownScriptImports f
                            | XmlFile \<Rightarrow> scriptTagImports f)
            (filter (\<lambda>f. \<not> hasTypedef f) (fst (getOwnFiles p sc))))))"
  by (simp add: diagnosticValidateScriptImportPaths_def getOwnScriptImports_def
        enumerateOwnFiles_def getOwnFiles_def split_def Let_def
        validateScriptImportPaths_loop_eq getAllFiles_again diagnostics_getAllFiles)

lemma importProgram_files:
  "fst (getAllFiles importProgram (newScope ''scope:source'')) = [importingFile, fooFile]"
  by (simp add: example_defs importProgram_def importingFile_def mainFile_def fooFile_def)

text \<open>
  The scenario of the specification: the import \<open>Pkg:/Lib/foo.brs\<close> resolves to the file
  \<open>pkg:/lib/Foo.brs\<close> and is reported with that path.
\<close>

theorem scriptImport_diagnostics_witness:
  "map info (diagnostics (diagnosticValidateScriptImportPaths importProgram (newScope ''scope:source'')))
     = [scriptImportCaseMismatch ''pkg:/lib/Foo.brs'']"
proof -
  have expected: "map info (diagnostics (newScope ''scope:source'') @
       concat (map (expectedImportDiagnostics [importingFile, fooFile])
         (concat (map (\<lambda>f. case kind f of
                              BrsFile \<Rightarrow> ownScriptImports f
                            | XmlFile \<Rightarrow> scriptTagImports f)
            (filter (\<lambda>f. \<not> hasTypedef f) [importingFile, fooFile])))))
     = [scriptImportCaseMismatch ''pkg:/lib/Foo.brs'']"
    by (simp add: expectedImportDiagnostics_def importDiagnostic_def importingFile_def
          mainFile_def fooFile_def brsFile_def newScope_def toLowerCase_def toLowerCaseChar_def)
  show ?thesis
    by (simp only: scriptImport_diagnostics getOwnFiles_def importProgram_files expected)
qed

subsection \<open>Unknown calls\<close>

lemma getVariableByName_None:
  "(getVariableByName fs (toLowerCase n) = None)
     = (toLowerCase n \<notin> set (map (\<lambda>v. toLowerCase (var_name v)) (variableDeclarations fs)))"
  unfolding getVariableByName_def find_None_iff toLowerCase_idem
  by (simp add: image_iff) metis

lemma firstCallableContainer_None:
  "(firstCallableContainer m lowerName = None) = (\<not> hasCallable m lowerName)"
  by (auto simp: firstCallableContainer_def hasCallable_def split: option.splits list.splits)

lemma callsToUnknownFunctions_loop_eq:
  "callsToUnknownFunctions_loop this f m calls ds =
     ds @ concat (map (expectedUnknownCall this f m) calls)"
proof (induction calls arbitrary: ds)
  case Nil
  show ?case by simp
next
  case (Cons expCall calls)
  show ?case
    by (cases "getFunctionScopeAtPosition f (range_start (call_nameRange expCall))")
       (simp_all add: Cons.IH Let_def expectedUnknownCall_def hasLocalVariable_def
          getVariableByName_None firstCallableContainer_None unknownCallDiagnostic_def)
qed

text \<open>
  C8. \<open>diagnosticDetectCallsToUnknownFunctions\<close> appends to the scope's diagnostics, call
  by call, one diagnostic with the call's name and the scope's name if and only if the call
  is not \<open>super\<close> in a \<open>.bs\<close> file, the function scope at the call site declares no
  variable of that lower-case name (of whatever type), and the map has no callable of that
  lower-case name.
\<close>

theorem unknownCall_diagnostics:
  "diagnostics (diagnosticDetectCallsToUnknownFunctions this f m sc)
     = diagnostics sc @ concat (map (expectedUnknownCall this f m) (functionCalls f))"
  by (simp add: diagnosticDetectCallsToUnknownFunctions_def callsToUnknownFunctions_loop_eq)

text \<open>
  Of the calls \<open>foo()\<close> and \<open>bar()\<close>, neither declared, only \<open>foo\<close> is reported: \<open>bar\<close> is
  a local variable at the call site, and not of a function type.
\<close>

theorem unknownCall_diagnostics_witness:
  "diagnostics (diagnosticDetectCallsToUnknownFunctions ''source'' callsFile [] (newScope ''scope:source''))
     = [unknownCallDiagnostic ''source'' callsFile fooCall]"
proof -
  have expected: "diagnostics (newScope ''scope:source'')
        @ concat (map (expectedUnknownCall ''source'' callsFile []) (functionCalls callsFile))
      = [unknownCallDiagnostic ''source'' callsFile fooCall]"
    by (simp add: expectedUnknownCall_def hasLocalVariable_def hasCallable_def callsFile_def
          mainFile_def brsFile_def fooCall_def barCall_def newScope_def
          toLowerCase_def toLowerCaseChar_def)
  show ?thesis
    by (simp only: unknownCall_diagnostics expected)
qed

subsection \<open>validate and invalidate\<close>

lemma getAllCallables_global:
  "this = globalScope p \<Longrightarrow>
     getAllCallables p h this =
       (let (own, sc') = getOwnCallables p this (h this) in (own, h(this := sc')))"
  by (subst getAllCallables.simps) (simp add: getParentScope_def)

lemma getAllCallables_child:
  "this \<noteq> globalScope p \<Longrightarrow>
     getAllCallables p h this =
       (let (own, sc') = getOwnCallables p this (h this);
            (inherited, h') = getAllCallables p (h(this := sc')) (globalScope p)
        in (own @ inherited, h'))"
  by (subst getAllCallables.simps) (simp add: getParentScope_def)

text \<open>\<open>validate\<close> with the parent written out: the parent is the global scope, if any.\<close>

lemma validate_body:
  "validate p h this force =
     (if isValidated (h this) = True \<and> \<not> force then Returned h
      else
        (case (if this \<noteq> globalScope p \<and> isValidated (h (globalScope p)) = False
               then validate p h (globalScope p) force
               else Returned h) of
           Thrown e h1 \<Rightarrow> Thrown e h1
         | Returned h1 \<Rightarrow>
             (let h2 = h1(this := (h1 this)\<lparr>diagnostics := []\<rparr>);
                  (callables', h3) = getAllCallables p h2 this;
                  sorted = sortCallables p callables';
                  callableContainerMap = getCallableContainersByLowerName sorted;
                  (files, sc4) = getOwnFiles p (h3 this);
                  sc5 = addDiagnostics
                          (plugins_emit p ''beforeScopeValidate'' this sc4 files callableContainerMap)
                          sc4;
                  sc6 = diagnosticFindDuplicateFunctionDeclarations p this callableContainerMap sc5;
                  sc7 = diagnosticValidateScriptImportPaths p sc6;
                  sc8 = validateClasses p this sc7;
                  (ownFiles, sc9) = enumerateOwnFiles p sc8
              in case validate_files p this callableContainerMap ownFiles sc9 of
                   Thrown e sc10 \<Rightarrow> Thrown e (h3(this := sc10))
                 | Returned sc10 \<Rightarrow>
                     (let sc11 = addDiagnostics
                                   (plugins_emit p ''afterScopeValidate'' this sc10 files
                                      callableContainerMap)
                                   sc10
                      in Returned (h3(this := sc11\<lparr>isValidated := True\<rparr>))))))"
  by (subst validate.simps) (simp add: getParentScope_def)

text \<open>
  A \<open>validate()\<close> that returns leaves the scope validated, and the next unforced
  \<open>validate()\<close> then returns at once with the scopes unchanged.
\<close>

lemma validate_returned_isValidated:
  "validate p h this False = Returned h' \<Longrightarrow> isValidated (h' this)"
  by (subst (asm) validate.simps)
     (auto simp: Let_def split_def split: if_splits Outcome.splits)

lemma validate_twice_returned:
  "validate p h this False = Returned h' \<Longrightarrow> validate p h' this False = Returned h'"
  by (subst validate.simps) (simp add: validate_returned_isValidated)

text \<open>
  Validating the global scope touches no other scope, so it commutes with a change of
  another scope.
\<close>

lemma validate_global_frame:
  "this \<noteq> globalScope p \<Longrightarrow>
     validate p (h(this := x)) (globalScope p) force
       = (case validate p h (globalScope p) force of
            Returned h' \<Rightarrow> Returned (h'(this := x))
          | Thrown e h' \<Rightarrow> Thrown e (h'(this := x)))"
  apply (subst validate.simps)
  apply (subst (2) validate.simps)
  apply (auto simp: getAllCallables.simps getParentScope_def Let_def split_def fun_upd_twist
      split: Outcome.splits)
  done

text \<open>
  A \<open>validate\<close> that gets past the validation of its parent does not read the diagnostics
  the scope held before.
\<close>

lemma validate_discards:
  assumes "isValidated x = False"
    and "\<not> parentValidationThrows p (h(this := x)) this"
  shows "validate p (h(this := x)) this False
       = validate p (h(this := x\<lparr>diagnostics := []\<rparr>)) this False"
proof (cases "this = globalScope p")
  case True
  then show ?thesis
    using assms(1)
    by (subst validate.simps, subst (2) validate.simps) (simp add: getParentScope_def)
next
  case False
  show ?thesis
  proof (cases "isValidated (h (globalScope p))")
    case True
    then show ?thesis
      using assms(1) False
      by (subst validate.simps, subst (2) validate.simps) (simp add: getParentScope_def)
  next
    case notValidated: False
    have "thrown (validate p (h(this := x)) (globalScope p) False) = None"
      using assms(2) False notValidated
      by (simp add: parentValidationThrows_def getParentScope_def)
    then obtain hp where hp: "validate p h (globalScope p) False = Returned hp"
      using False by (cases "validate p h (globalScope p) False")
        (simp_all add: validate_global_frame)
    show ?thesis
      using assms(1) False notValidated
      by (subst validate.simps, subst (2) validate.simps)
         (simp add: getParentScope_def validate_global_frame hp)
  qed
qed

lemma getDiagnostics_invalidate:
  "fst (getDiagnostics p (invalidate sc))
     = filter (\<lambda>x. \<not> diagnosticIsSuppressed p x) (diagnostics sc)
       @ filter (\<lambda>x. \<not> diagnosticIsSuppressed p x)
           (concat (map file_getDiagnostics
              (filter (\<lambda>f. \<not> hasTypedef f) (getAllFiles_factory p sc))))"
  by (simp add: getDiagnostics_def enumerateOwnFiles_def getOwnFiles_def getAllFiles_def
        invalidate_def cache_clear_def getAllFiles_factory_def Let_def split_def)

lemma getDiagnostics_current:
  "allFilesSlotCurrent p sc \<Longrightarrow>
   fst (getDiagnostics p sc)
     = filter (\<lambda>x. \<not> diagnosticIsSuppressed p x) (diagnostics sc)
       @ filter (\<lambda>x. \<not> diagnosticIsSuppressed p x)
           (concat (map file_getDiagnostics
              (filter (\<lambda>f. \<not> hasTypedef f) (getAllFiles_factory p sc))))"
  by (simp add: getDiagnostics_def enumerateOwnFiles_def getOwnFiles_def
        getAllFiles_current Let_def split_def)

text \<open>The pipeline on the examples: first the global scope, then the source scope.\<close>

lemmas pipeline_defs =
  getOwnCallables_def enumerateOwnFiles_def enumerateAllFiles_def getOwnFiles_def getAllFiles_def
  getAllFiles_factory_def getAllDependencies_def dependencies_def Let_def
  sortCallables_def getCallableContainersByLowerName_def addDiagnostics_def
  diagnosticFindDuplicateFunctionDeclarations_def diagnosticValidateScriptImportPaths_def
  getOwnScriptImports_def validateClasses_def validate_file_def
  diagnosticDetectCallsToUnknownFunctions_def diagnosticDetectFunctionCallsWithWrongParamCount_def
  diagnosticDetectShadowedLocalVars_def diagnosticDetectFunctionCollisions_def
  detectVariableNamespaceCollisions_def getClassMap_def firstCallableContainer_def
  getVariableByName_def startsWith_def replaceComponentPrefix_def
  toLowerCase_def toLowerCaseChar_def
  namespaceLookup_def buildNamespaceLookup_def buildNamespaceLookup_file_def
  lookupGet_def objectGet_def

lemma callsProgram_global: "globalScope callsProgram = ''global''"
  by (simp add: callsProgram_def programOf_def)

lemma constructorProgram_global: "globalScope constructorProgram = ''global''"
  by (simp add: constructorProgram_def programOf_def)

lemma callsScopes_at:
  "callsScopes ''global'' = newScope ''scope:global''"
  "callsScopes ''source'' = newScope ''scope:source''"
  by (simp_all add: callsScopes_def)

lemma validate_global_example:
  "validate callsProgram callsScopes ''global'' False
     = Returned (callsScopes(''global'' := validatedGlobal))"
  apply (subst validate_body)
  apply (simp add: callsProgram_def callsScopes_def programOf_def newScope_def
      getAllCallables_global pipeline_defs validatedGlobal_def)
  done

lemma validate_source_example:
  "(case validate callsProgram callsScopes ''source'' False of
      Returned h \<Rightarrow>
        isValidated (h ''source'')
        \<and> diagnostics (h ''source'') = [unknownCallDiagnostic ''source'' callsFile fooCall]
    | Thrown e h \<Rightarrow> False)"
  apply (subst validate_body)
  apply (simp add: validate_global_example callsProgram_global callsScopes_at newScope_def)
  apply (simp add: callsProgram_def callsScopes_def programOf_def newScope_def
      getAllCallables_global getAllCallables_child pipeline_defs validatedGlobal_def
      callsFile_def mainFile_def brsFile_def fooCall_def barCall_def unknownCallDiagnostic_def)
  done

lemma validate_global_constructor:
  "validate constructorProgram callsScopes ''global'' False
     = Returned (callsScopes(''global'' := validatedGlobal))"
  apply (subst validate_body)
  apply (simp add: constructorProgram_def callsScopes_def programOf_def newScope_def
      getAllCallables_global pipeline_defs validatedGlobal_def)
  done

lemma validate_constructor_first:
  "(case validate constructorProgram callsScopes ''source'' False of
      Returned h \<Rightarrow> False
    | Thrown e h \<Rightarrow> e = TypeError \<and> h ''source'' = thrownSource \<and> h ''global'' = validatedGlobal)"
  apply (subst validate_body)
  apply (simp add: validate_global_constructor constructorProgram_global callsScopes_at newScope_def)
  apply (simp add: constructorProgram_def callsScopes_def programOf_def newScope_def
      getAllCallables_global getAllCallables_child pipeline_defs validatedGlobal_def thrownSource_def
      constructorFile_def mainFile_def brsFile_def)
  done

lemma validate_constructor_again:
  "h ''source'' = thrownSource \<Longrightarrow> h ''global'' = validatedGlobal \<Longrightarrow>
     thrown (validate constructorProgram h ''source'' False) = Some TypeError"
  apply (subst validate_body)
  apply (simp add: constructorProgram_global validatedGlobal_def thrownSource_def)
  apply (simp add: constructorProgram_def programOf_def
      getAllCallables_global getAllCallables_child pipeline_defs validatedGlobal_def thrownSource_def
      constructorFile_def mainFile_def brsFile_def)
  done

text \<open>
  C9 (the code at a failing input). The one function of the source scope's file has a
  parameter named \<open>constructor\<close> and no namespace is declared. The lookup
  \<open>this.namespaceLookup['constructor']\<close> yields the function \<open>Object\<close>, which has no
  \<open>file\<close>, so \<open>validate()\<close> throws a \<open>TypeError\<close> in \<open>detectVariableNamespaceCollisions\<close>
  before it sets \<open>isValidated\<close>. The scope is left not validated, and the second
  \<open>validate()\<close> does not return early: it runs the pipeline again and throws again, where
  the claim says it observes \<open>isValidated == true\<close> and returns without running it.
\<close>

theorem validate_throws_on_constructor_parameter:
  "thrown (validate constructorProgram callsScopes ''source'' False) = Some TypeError
   \<and> isValidated (state (validate constructorProgram callsScopes ''source'' False) ''source'')
       = False
   \<and> thrown (validate constructorProgram
        (state (validate constructorProgram callsScopes ''source'' False)) ''source'' False)
       = Some TypeError"
proof (cases "validate constructorProgram callsScopes ''source'' False")
  case (Returned h)
  with validate_constructor_first show ?thesis
    by simp
next
  case (Thrown e h)
  with validate_constructor_first
  have e: "e = TypeError" and source: "h ''source'' = thrownSource"
    and global: "h ''global'' = validatedGlobal"
    by simp_all
  have "thrown (validate constructorProgram h ''source'' False) = Some TypeError"
    using source global by (rule validate_constructor_again)
  then show ?thesis
    by (simp add: Thrown e source thrownSource_def)
qed

text \<open>
  C10. \<open>invalidate()\<close> sets \<open>isValidated\<close> to false, empties every cache slot and leaves the
  diagnostics list (and the dependency-graph key) as it was. \<open>getDiagnostics()\<close> after it
  still returns the scope's diagnostics that are not suppressed, followed by those of the own
  files, and returns the same list as before when the \<open>getAllFiles\<close> slot was current. The
  next \<open>validate()\<close> discards them once it is past the validation of its parent (line 377
  comes after it): unless that validation throws, the outcome is the same as on a scope whose
  diagnostics list is empty.
\<close>

theorem invalidate_keeps_diagnostics:
  "isValidated (invalidate sc) = False
   \<and> cache (invalidate sc)
       = \<lparr>slot_getAllFiles = None, slot_classMap = None, slot_namespaceLookup = None\<rparr>
   \<and> diagnostics (invalidate sc) = diagnostics sc
   \<and> dependencyGraphKey (invalidate sc) = dependencyGraphKey sc
   \<and> fst (getDiagnostics p (invalidate sc))
       = filter (\<lambda>x. \<not> diagnosticIsSuppressed p x) (diagnostics sc)
         @ filter (\<lambda>x. \<not> diagnosticIsSuppressed p x)
             (concat (map file_getDiagnostics
                (filter (\<lambda>f. \<not> hasTypedef f) (getAllFiles_factory p sc))))
   \<and> (allFilesSlotCurrent p sc \<longrightarrow>
         fst (getDiagnostics p (invalidate sc)) = fst (getDiagnostics p sc))
   \<and> (\<not> parentValidationThrows p (h(this := invalidate sc)) this \<longrightarrow>
         validate p (h(this := invalidate sc)) this False
           = validate p (h(this := (invalidate sc)\<lparr>diagnostics := []\<rparr>)) this False)"
proof -
  have "validate p (h(this := invalidate sc)) this False
       = validate p (h(this := (invalidate sc)\<lparr>diagnostics := []\<rparr>)) this False"
    if "\<not> parentValidationThrows p (h(this := invalidate sc)) this"
    by (rule validate_discards [OF _ that]) (simp add: invalidate_def)
  then show ?thesis
    by (simp add: getDiagnostics_invalidate getDiagnostics_current)
       (simp add: invalidate_def cache_clear_def)
qed

text \<open>
  A validated scope with one diagnostic of its own, a current cache and a validated parent:
  after \<open>invalidate()\<close> the diagnostic is still in the list and still returned by
  \<open>getDiagnostics()\<close>, and the next \<open>validate()\<close> does not depend on it.
\<close>

theorem invalidate_keeps_diagnostics_witness:
  "allFilesSlotCurrent chainProgram scopeWithDiagnostic
   \<and> \<not> parentValidationThrows chainProgram
         ((\<lambda>n. scopeWithDiagnostic)(''source'' := invalidate scopeWithDiagnostic)) ''source''
   \<and> isValidated (invalidate scopeWithDiagnostic) = False
   \<and> diagnostics (invalidate scopeWithDiagnostic)
       = [unknownCallDiagnostic ''source'' mainFile fooCall]
   \<and> fst (getDiagnostics chainProgram (invalidate scopeWithDiagnostic))
       = [unknownCallDiagnostic ''source'' mainFile fooCall]
   \<and> fst (getDiagnostics chainProgram (invalidate scopeWithDiagnostic))
       = fst (getDiagnostics chainProgram scopeWithDiagnostic)
   \<and> validate chainProgram
        ((\<lambda>n. scopeWithDiagnostic)(''source'' := invalidate scopeWithDiagnostic)) ''source'' False
       = validate chainProgram
           ((\<lambda>n. scopeWithDiagnostic)
              (''source'' := (invalidate scopeWithDiagnostic)\<lparr>diagnostics := []\<rparr>))
           ''source'' False"
proof -
  have current: "allFilesSlotCurrent chainProgram scopeWithDiagnostic"
    by (simp add: allFilesSlotCurrent_def scopeWithDiagnostic_def newScope_def)
  have parent: "\<not> parentValidationThrows chainProgram
         ((\<lambda>n. scopeWithDiagnostic)(''source'' := invalidate scopeWithDiagnostic)) ''source''"
    by (simp add: parentValidationThrows_def getParentScope_def chainProgram_def programOf_def
          scopeWithDiagnostic_def newScope_def)
  have files: "getAllFiles_factory chainProgram scopeWithDiagnostic = [mainFile, libFile]"
    by (simp add: example_defs scopeWithDiagnostic_def chainProgram_def mainFile_def libFile_def)
  have own: "diagnostics scopeWithDiagnostic = [unknownCallDiagnostic ''source'' mainFile fooCall]"
    by (simp add: scopeWithDiagnostic_def newScope_def)
  have quiet: "filter (\<lambda>x. \<not> diagnosticIsSuppressed chainProgram x) ds = ds" for ds
    by (simp add: chainProgram_def programOf_def)
  have noFileDiagnostics:
    "concat (map file_getDiagnostics (filter (\<lambda>f. \<not> hasTypedef f) [mainFile, libFile])) = []"
    by (simp add: mainFile_def libFile_def brsFile_def)
  note fact = invalidate_keeps_diagnostics
    [of scopeWithDiagnostic chainProgram "\<lambda>n. scopeWithDiagnostic" "''source''"]
  from fact have invalid: "isValidated (invalidate scopeWithDiagnostic) = False"
    by (elim conjE)
  from fact have kept:
    "diagnostics (invalidate scopeWithDiagnostic) = diagnostics scopeWithDiagnostic"
    by (elim conjE)
  from fact have observed:
    "fst (getDiagnostics chainProgram (invalidate scopeWithDiagnostic))
       = filter (\<lambda>x. \<not> diagnosticIsSuppressed chainProgram x) (diagnostics scopeWithDiagnostic)
         @ filter (\<lambda>x. \<not> diagnosticIsSuppressed chainProgram x)
             (concat (map file_getDiagnostics
                (filter (\<lambda>f. \<not> hasTypedef f)
                   (getAllFiles_factory chainProgram scopeWithDiagnostic))))"
    by (elim conjE)
  from fact current have same:
    "fst (getDiagnostics chainProgram (invalidate scopeWithDiagnostic))
       = fst (getDiagnostics chainProgram scopeWithDiagnostic)"
    by (elim conjE) (erule mp)
  from fact parent have discarded:
    "validate chainProgram
        ((\<lambda>n. scopeWithDiagnostic)(''source'' := invalidate scopeWithDiagnostic)) ''source'' False
       = validate chainProgram
           ((\<lambda>n. scopeWithDiagnostic)
              (''source'' := (invalidate scopeWithDiagnostic)\<lparr>diagnostics := []\<rparr>))
           ''source'' False"
    by (elim conjE) (erule mp)
  have result: "fst (getDiagnostics chainProgram (invalidate scopeWithDiagnostic))
       = [unknownCallDiagnostic ''source'' mainFile fooCall]"
    by (simp only: observed files own quiet noFileDiagnostics append_Nil2)
  show ?thesis
    using current parent invalid kept own same result discarded by (simp only: simp_thms)
qed

end
